theory Spec2Isabelle
  imports Complex_Main "HOL-Library.AList"
begin

section \<open>Maintenance scheduler (src/lib/maintenance-scheduler.ts)\<close>

text \<open>
  JavaScript numbers are modelled as reals wherever only exact comparisons and sums of
  the values occur; dates are modelled by their epoch time in milliseconds.
\<close>

type_synonym timestamp = int

record SchedulingConfig =
  costWeight :: real
  availabilityWeight :: real
  utilizationWeight :: real
  safetyWeight :: real
  minSafetyMarginHours :: real
  maxDowntimeHours :: real
  preferredMaintenanceDays :: "nat list"
  maintenanceCapacity :: real
  predictionHorizonDays :: real
  utilizationLookbackDays :: real

record MaintenanceScheduleItem =
  item_id :: string
  item_aircraftId :: string
  item_tailNumber :: string
  item_maintenanceType :: string
  item_scheduledDate :: timestamp
  item_estimatedDuration :: real
  item_priority :: string
  item_confidenceScore :: real
  item_reasoning :: "string list"
  item_conflictsWith :: "string list"
  item_alternativeDates :: "timestamp list"
  item_estimatedCost :: real
  item_impactOnOperations :: string
  item_requiredParts :: "string list"
  item_mechanicRequirements :: "string list"

text \<open>
  The types \<open>UtilizationPattern\<close>, \<open>FlightPlan\<close> and \<open>WorkOrder\<close> are only passed
  through by the functions below, so they are type parameters \<open>'p\<close>, \<open>'f\<close>, \<open>'w\<close>.
\<close>

definition calculateCostScore :: "MaintenanceScheduleItem list \<Rightarrow> real" where
  "calculateCostScore schedule = 0.8"

definition calculateAvailabilityScore :: "MaintenanceScheduleItem list \<Rightarrow> 'p list \<Rightarrow> real" where
  "calculateAvailabilityScore schedule patterns = 0.9"

definition calculateUtilizationScore :: "MaintenanceScheduleItem list \<Rightarrow> 'p list \<Rightarrow> real" where
  "calculateUtilizationScore schedule patterns = 0.85"

definition calculateSafetyScore :: "MaintenanceScheduleItem list \<Rightarrow> real" where
  "calculateSafetyScore schedule = 0.95"

definition evaluateSchedule ::
  "SchedulingConfig \<Rightarrow> MaintenanceScheduleItem list \<Rightarrow> 'p list \<Rightarrow> 'f list \<Rightarrow> real" where
  "evaluateSchedule config schedule patterns upcomingFlights =
     (let costScore = calculateCostScore schedule;
          availabilityScore = calculateAvailabilityScore schedule patterns;
          utilizationScore = calculateUtilizationScore schedule patterns;
          safetyScore = calculateSafetyScore schedule
      in costScore * costWeight config
         + availabilityScore * availabilityWeight config
         + utilizationScore * utilizationWeight config
         + safetyScore * safetyWeight config)"

definition mutateSchedule ::
  "MaintenanceScheduleItem list \<Rightarrow> 'p list \<Rightarrow> MaintenanceScheduleItem list" where
  "mutateSchedule schedule patterns = schedule"

text \<open>
  The body of \<open>for (let iteration = 0; iteration < 100; iteration++)\<close>; the loop
  variable is not read by the body, so the recursion counts the remaining iterations.
  The loop state is the pair \<open>(bestSchedule, bestScore)\<close>.
\<close>

fun improvement_loop ::
  "SchedulingConfig \<Rightarrow> 'p list \<Rightarrow> 'f list \<Rightarrow> nat
     \<Rightarrow> MaintenanceScheduleItem list \<times> real \<Rightarrow> MaintenanceScheduleItem list \<times> real" where
  "improvement_loop config patterns upcomingFlights 0 best = best"
| "improvement_loop config patterns upcomingFlights (Suc n) (bestSchedule, bestScore) =
     (let mutatedSchedule = mutateSchedule bestSchedule patterns;
          score = evaluateSchedule config mutatedSchedule patterns upcomingFlights
      in improvement_loop config patterns upcomingFlights n
           (if score > bestScore then (mutatedSchedule, score) else (bestSchedule, bestScore)))"

definition optimizeSchedule ::
  "SchedulingConfig \<Rightarrow> MaintenanceScheduleItem list \<Rightarrow> 'f list \<Rightarrow> 'p list \<Rightarrow> 'w list
     \<Rightarrow> MaintenanceScheduleItem list" where
  "optimizeSchedule config predictedMaintenance upcomingFlights patterns currentWorkOrders =
     (let bestSchedule = predictedMaintenance;
          bestScore = evaluateSchedule config bestSchedule patterns upcomingFlights
      in fst (improvement_loop config patterns upcomingFlights 100 (bestSchedule, bestScore)))"

section \<open>JavaScript runtime primitives\<close>

text \<open>
  Template literals render non-negative integers in decimal.
\<close>

definition digit_char :: "nat \<Rightarrow> char" where
  "digit_char d = ''0123456789'' ! (d mod 10)"

fun show_nat :: "nat \<Rightarrow> string" where
  "show_nat n = (if n < 10 then [digit_char n] else show_nat (n div 10) @ [digit_char (n mod 10)])"

text \<open>
  A value that may be \<open>undefined\<close> is an option; \<open>!x\<close> holds for \<open>undefined\<close> and
  for the empty string.
\<close>

definition falsy :: "string option \<Rightarrow> bool" where
  "falsy x = (case x of None \<Rightarrow> True | Some v \<Rightarrow> v = [])"

text \<open>\<open>new Date(x)\<close> clips a time value to whole milliseconds, towards zero.\<close>

definition date_of :: "real \<Rightarrow> timestamp" where
  "date_of x = (if 0 \<le> x then \<lfloor>x\<rfloor> else \<lceil>x\<rceil>)"

text \<open>\<open>xs.slice(0, k)\<close>; a negative \<open>k\<close> counts from the end.\<close>

definition slice0 :: "'a list \<Rightarrow> int \<Rightarrow> 'a list" where
  "slice0 xs k = (if 0 \<le> k then take (nat k) xs else take (length xs - nat (- k)) xs)"

text \<open>\<open>Array.prototype.find\<close>: the first element that satisfies the predicate.\<close>

definition find_first :: "('a \<Rightarrow> bool) \<Rightarrow> 'a list \<Rightarrow> 'a option" where
  "find_first p xs = List.find p xs"

subsection \<open>The environment: clock, random numbers, mail transport\<close>

text \<open>
  \<open>Date.now()\<close>, \<open>Math.random()\<close> and the external mail transports are inputs of the
  program. They are modelled as three streams with read positions: the \<open>k\<close>-th call a
  function makes reads the element \<open>k\<close> places after the position, and the function
  returns the environment with the positions advanced by the number of calls it made.
  \<open>Math.random()\<close> returns a number in \<open>[0, 1)\<close>: an element of the stream outside the
  interval is read as 0. \<open>full_year\<close> and \<open>month_of\<close> are the calendar of the host
  (\<open>getFullYear\<close> and \<open>getMonth\<close> of a time value). \<open>radix36\<close> is the number printing
  of the host engine, \<open>x.toString(36)\<close>: how a floating-point number is rounded to
  base-36 digits is the engine's own, so the function is an input as well.
  \<open>send_calls\<close> records every invocation of \<open>sendEmail\<close> (recipient address and
  generated message id).
\<close>

datatype transport_result = Delivered "string option" | TransportError string

record env =
  clock :: "nat \<Rightarrow> nat"
  clock_ix :: nat
  rng :: "nat \<Rightarrow> real"
  rng_ix :: nat
  net :: "nat \<Rightarrow> transport_result"
  net_ix :: nat
  full_year :: "nat \<Rightarrow> nat"
  month_of :: "nat \<Rightarrow> nat"
  radix36 :: "real \<Rightarrow> string"
  send_calls :: "(string \<times> string) list"

definition now :: "env \<Rightarrow> nat \<Rightarrow> nat" where
  "now e k = clock e (clock_ix e + k)"

definition rnd :: "env \<Rightarrow> nat \<Rightarrow> real" where
  "rnd e k = (let r = rng e (rng_ix e + k) in if 0 \<le> r \<and> r < 1 then r else 0)"

definition advance :: "nat \<Rightarrow> nat \<Rightarrow> env \<Rightarrow> env" where
  "advance t r e = e\<lparr>clock_ix := clock_ix e + t, rng_ix := rng_ix e + r\<rparr>"

text \<open>
  \<open>s.substr(2, 9)\<close>: nine characters from position 2, or as many as there are.
\<close>

definition substr_2_9 :: "string \<Rightarrow> string" where
  "substr_2_9 s = take 9 (drop 2 s)"

text \<open>\<open>r.toString(36).substr(2, 9)\<close> for a random number \<open>r\<close>.\<close>

definition random_suffix :: "env \<Rightarrow> real \<Rightarrow> string" where
  "random_suffix e r = substr_2_9 (radix36 e r)"

section \<open>The maintenance-schedule API route (src/lib/email-config.ts, from line 339)\<close>

subsection \<open>Mock data and stored records\<close>

record Aircraft =
  ac_id :: string
  ac_tailNumber :: string
  ac_make :: string
  ac_model :: string
  ac_serialNumber :: string
  ac_yearOfManufacture :: nat
  ac_totalAircraftTime :: real
  ac_totalCycles :: nat
  ac_isActive :: bool
  ac_flightStatus :: string
  ac_icaoAddress :: string

definition mockAircraft :: "Aircraft list" where
  "mockAircraft =
     [\<lparr>ac_id = ''n123ab'', ac_tailNumber = ''N123AB'', ac_make = ''Gulfstream'', ac_model = ''G550'',
       ac_serialNumber = ''G550-001'', ac_yearOfManufacture = 2018, ac_totalAircraftTime = 2450,
       ac_totalCycles = 1850, ac_isActive = True, ac_flightStatus = ''AVAILABLE'',
       ac_icaoAddress = ''a1234b''\<rparr>,
      \<lparr>ac_id = ''n456cd'', ac_tailNumber = ''N456CD'', ac_make = ''Gulfstream'', ac_model = ''G550'',
       ac_serialNumber = ''G550-002'', ac_yearOfManufacture = 2019, ac_totalAircraftTime = 2125,
       ac_totalCycles = 1620, ac_isActive = True, ac_flightStatus = ''MAINTENANCE'',
       ac_icaoAddress = ''c5678d''\<rparr>,
      \<lparr>ac_id = ''n789xy'', ac_tailNumber = ''N789XY'', ac_make = ''Gulfstream'', ac_model = ''G550'',
       ac_serialNumber = ''G550-003'', ac_yearOfManufacture = 2020, ac_totalAircraftTime = 1875,
       ac_totalCycles = 1425, ac_isActive = True, ac_flightStatus = ''IN_FLIGHT'',
       ac_icaoAddress = ''e9012f''\<rparr>]"

record TimeWindow =
  tw_earliest :: timestamp
  tw_latest :: timestamp
  tw_optimal :: timestamp

text \<open>
  A stored recommendation: the fields of the interface \<open>MaintenanceRecommendation\<close>
  (src/lib/agentic-workflow.ts) and the further fields the route's object literals carry.
\<close>

record MaintenanceRecommendation =
  rec_id :: string
  rec_aircraftId :: string
  rec_tailNumber :: string
  rec_maintenanceType :: string
  rec_urgency :: string
  rec_scheduledDate :: timestamp
  rec_recommendedDate :: timestamp
  rec_estimatedCost :: real
  rec_estimatedDuration :: real
  rec_estimatedDowntime :: real
  rec_description :: string
  rec_aiConfidence :: real
  rec_reasoning :: "string list"
  rec_status :: string
  rec_workflowId :: "string option"
  rec_complianceRequirements :: "string list"
  rec_riskFactors :: "string list"
  rec_affectedAssets :: "string list"
  rec_requiredPersonnel :: "string list"
  rec_timeWindow :: TimeWindow
  rec_createdAt :: timestamp
  rec_approvedBy :: "string option"
  rec_approvedAt :: "timestamp option"

record WorkflowProgress =
  pr_tasksCompleted :: int
  pr_totalTasks :: int
  pr_currentTask :: string
  pr_nextMilestone :: string
  pr_estimatedCompletion :: timestamp

record WorkflowAssignments =
  as_mechanic :: string
  as_inspector :: "string option"
  as_supervisor :: string

record WorkflowResources =
  rs_hangar :: string
  rs_equipment :: "string list"
  rs_parts :: "string list"

record WorkflowTimeline =
  tl_started :: timestamp
  tl_estimatedCompletion :: timestamp
  tl_actualCompletion :: "timestamp option"

record WorkflowNotifications =
  nt_lastSent :: timestamp
  nt_nextReminder :: timestamp
  nt_escalationLevel :: int

record ActiveWorkflow =
  wf_id :: string
  wf_recommendationId :: string
  wf_aircraftId :: string
  wf_tailNumber :: string
  wf_maintenanceType :: string
  wf_status :: string
  wf_progress :: WorkflowProgress
  wf_assignments :: WorkflowAssignments
  wf_resources :: WorkflowResources
  wf_timeline :: WorkflowTimeline
  wf_notifications :: WorkflowNotifications

subsection \<open>The workflow materializer\<close>

definition getCurrentTask :: "string \<Rightarrow> string \<Rightarrow> string" where
  "getCurrentTask status maintenanceType =
     (case map_of
        [(''INITIATED'', ''Setting up work area and gathering tools''),
         (''IN_PROGRESS'', ''Performing '' @ maintenanceType @ '' inspection procedures''),
         (''AWAITING_PARTS'', ''Waiting for parts delivery - Oil filter and spark plugs''),
         (''INSPECTION'', ''Final quality inspection and documentation''),
         (''DELAYED'', ''Resolving technical issue - Awaiting manufacturer guidance'')] status of
        Some task \<Rightarrow> task
      | None \<Rightarrow> ''Unknown task'')"

definition getNextMilestone :: "string \<Rightarrow> string" where
  "getNextMilestone status =
     (case map_of
        [(''INITIATED'', ''Begin primary inspection procedures''),
         (''IN_PROGRESS'', ''Complete systems testing''),
         (''AWAITING_PARTS'', ''Resume work upon parts arrival''),
         (''INSPECTION'', ''Final sign-off and aircraft release''),
         (''DELAYED'', ''Technical issue resolution'')] status of
        Some milestone \<Rightarrow> milestone
      | None \<Rightarrow> ''Continue work'')"

text \<open>
  The two functions above and the one below look a key up in an object literal, as do
  the cost, duration and compliance tables of the recommendation generator. The lookup
  is modelled for keys that are not names of members of \<open>Object.prototype\<close> (such as
  \<open>constructor\<close> or \<open>toString\<close>), for which JavaScript would return the inherited member
  instead of the default.
\<close>

definition getRequiredEquipment :: "string \<Rightarrow> string list" where
  "getRequiredEquipment maintenanceType =
     (case map_of
        [(''A_CHECK'', [''Basic Tool Kit'', ''Multimeter'', ''Torque Wrench'']),
         (''C_CHECK'', [''Comprehensive Tool Kit'', ''Lift Equipment'', ''Borescope'', ''Pressure Test Kit'']),
         (''100_HOUR'', [''Engine Tools'', ''Oil Analysis Kit'', ''Compression Tester'']),
         (''ANNUAL'', [''Full Inspection Kit'', ''NDT Equipment'', ''Calibration Tools'']),
         (''PROGRESSIVE'', [''Progressive Kit'', ''Documentation System''])] maintenanceType of
        Some equipment \<Rightarrow> equipment
      | None \<Rightarrow> [''Standard Tool Kit''])"

definition workflow_statuses :: "string list" where
  "workflow_statuses = [''INITIATED'', ''IN_PROGRESS'', ''AWAITING_PARTS'', ''INSPECTION'', ''DELAYED'']"

text \<open>
  \<open>createWorkflowFromRecommendation\<close> calls \<open>Math.random()\<close> eight times and
  \<open>Date.now()\<close> five times, in the order of the source text.
\<close>

definition createWorkflowFromRecommendation ::
  "MaintenanceRecommendation \<Rightarrow> nat \<Rightarrow> env \<Rightarrow> ActiveWorkflow \<times> env" where
  "createWorkflowFromRecommendation recommendation index e =
     (let currentStatus = workflow_statuses ! (index mod length workflow_statuses);
          tasksCompleted = \<lfloor>rnd e 0 * 8\<rfloor> + 2;
          totalTasks = tasksCompleted + \<lfloor>rnd e 1 * 5\<rfloor> + 3;
          aircraft = find_first (\<lambda>a. ac_id a = rec_aircraftId recommendation) mockAircraft
      in (\<lparr>wf_id = ''workflow-'' @ rec_id recommendation,
           wf_recommendationId = rec_id recommendation,
           wf_aircraftId = rec_aircraftId recommendation,
           wf_tailNumber = rec_tailNumber recommendation,
           wf_maintenanceType = rec_maintenanceType recommendation,
           wf_status = currentStatus,
           wf_progress =
             \<lparr>pr_tasksCompleted = tasksCompleted,
              pr_totalTasks = totalTasks,
              pr_currentTask = getCurrentTask currentStatus (rec_maintenanceType recommendation),
              pr_nextMilestone = getNextMilestone currentStatus,
              pr_estimatedCompletion =
                date_of (real (now e 0) + rnd e 2 * 7 * 24 * 60 * 60 * 1000)\<rparr>,
           wf_assignments =
             \<lparr>as_mechanic = [''John Smith'', ''Mike Wilson'', ''Sarah Rodriguez''] ! (index mod 3),
              as_inspector = (if currentStatus = ''INSPECTION'' then Some ''David Chen'' else None),
              as_supervisor = ''Tom Anderson''\<rparr>,
           wf_resources =
             \<lparr>rs_hangar = ''Hangar '' @ [''A'', ''B'', ''C''] ! (index mod 3)
                           @ '' - Bay '' @ show_nat ((index mod 4) + 1),
              rs_equipment = getRequiredEquipment (rec_maintenanceType recommendation),
              rs_parts = slice0 [''Oil Filter'', ''Spark Plugs'', ''Brake Pads'', ''Hydraulic Fluid'']
                           (\<lfloor>rnd e 3 * 3\<rfloor> + 1)\<rparr>,
           wf_timeline =
             \<lparr>tl_started = date_of (real (now e 1) - rnd e 4 * 3 * 24 * 60 * 60 * 1000),
              tl_estimatedCompletion =
                date_of (real (now e 2) + rnd e 5 * 7 * 24 * 60 * 60 * 1000),
              tl_actualCompletion = None\<rparr>,
           wf_notifications =
             \<lparr>nt_lastSent = date_of (real (now e 3) - rnd e 6 * 6 * 60 * 60 * 1000),
              nt_nextReminder = date_of (real (now e 4) + 4 * 60 * 60 * 1000),
              nt_escalationLevel = \<lfloor>rnd e 7 * 3\<rfloor>\<rparr>\<rparr>,
          advance 5 8 e))"

section \<open>Email configuration and service (src/lib/email-config.ts, src/lib/email-service.ts)\<close>

record EmailRecipient =
  rc_name :: string
  rc_email :: string
  rc_role :: string

text \<open>The nested objects of \<open>MaintenanceEmailData\<close> are flattened into one record.\<close>

record MaintenanceEmailData =
  ed_recommendationId :: string
  ed_workflowId :: string
  ed_tailNumber :: string
  ed_make :: string
  ed_model :: string
  ed_totalTime :: real
  ed_type :: string
  ed_scheduledDate :: timestamp
  ed_estimatedDuration :: real
  ed_location :: string
  ed_estimatedCost :: real
  ed_mechanic :: string
  ed_inspector :: "string option"
  ed_supervisor :: string
  ed_hangar :: string
  ed_equipment :: "string list"
  ed_parts :: "string list"
  ed_regulations :: "string list"
  ed_requiredDocumentation :: "string list"
  ed_approvedBy :: string
  ed_approvedAt :: timestamp
  ed_notes :: "string option"

datatype provider = Mailtrap | Gmail | Sendgrid | Simulation

record SMTPConfig =
  sc_provider :: provider
  sc_host :: "string option"
  sc_port :: "nat option"
  sc_secure :: "bool option"
  sc_auth :: "(string \<times> string) option"
  sc_from :: string
  sc_inboxId :: "string option"

definition simulation_config :: "string \<Rightarrow> SMTPConfig" where
  "simulation_config from =
     \<lparr>sc_provider = Simulation, sc_host = None, sc_port = None, sc_secure = None,
      sc_auth = None, sc_from = from, sc_inboxId = None\<rparr>"

text \<open>
  \<open>getEmailConfig\<close> reads \<open>process.env\<close>, a partial map from variable names to
  strings; \<open>x || d\<close> and \<open>!x\<close> treat an unset and an empty variable alike.
\<close>

definition str_or :: "string option \<Rightarrow> string \<Rightarrow> string" where
  "str_or x d = (if falsy x then d else the x)"

definition getEmailConfig :: "(string \<rightharpoonup> string) \<Rightarrow> SMTPConfig" where
  "getEmailConfig penv =
     (let provider = str_or (penv ''EMAIL_PROVIDER'') ''simulation'';
          from = str_or (penv ''EMAIL_FROM'') ''noreply@ganderaviation.com''
      in if provider = ''mailtrap'' then
           (if \<not> falsy (penv ''MAILTRAP_INBOX_ID'') \<and> \<not> falsy (penv ''MAILTRAP_API_TOKEN'') then
              \<lparr>sc_provider = Mailtrap, sc_host = Some ''sandbox.api.mailtrap.io'', sc_port = None,
               sc_secure = None,
               sc_auth = Some (''testing'', the (penv ''MAILTRAP_API_TOKEN'')),
               sc_from = from, sc_inboxId = penv ''MAILTRAP_INBOX_ID''\<rparr>
            else if \<not> falsy (penv ''MAILTRAP_USER'') \<and> \<not> falsy (penv ''MAILTRAP_PASS'') then
              \<lparr>sc_provider = Mailtrap, sc_host = Some ''sandbox.smtp.mailtrap.io'',
               sc_port = Some 587, sc_secure = Some False,
               sc_auth = Some (the (penv ''MAILTRAP_USER''), the (penv ''MAILTRAP_PASS'')),
               sc_from = from, sc_inboxId = None\<rparr>
            else simulation_config from)
         else if provider = ''gmail'' then
           (if falsy (penv ''GMAIL_USER'') \<or> falsy (penv ''GMAIL_APP_PASSWORD'') then
              simulation_config from
            else
              \<lparr>sc_provider = Gmail, sc_host = None, sc_port = None, sc_secure = None,
               sc_auth = Some (the (penv ''GMAIL_USER''), the (penv ''GMAIL_APP_PASSWORD'')),
               sc_from = from, sc_inboxId = None\<rparr>)
         else if provider = ''sendgrid'' then
           (if falsy (penv ''SENDGRID_API_KEY'') then simulation_config from
            else
              \<lparr>sc_provider = Sendgrid, sc_host = None, sc_port = None, sc_secure = None,
               sc_auth = Some (''apikey'', the (penv ''SENDGRID_API_KEY'')),
               sc_from = from, sc_inboxId = None\<rparr>)
         else simulation_config from)"

text \<open>
  The service object. \<open>sv_transporter\<close> tells whether \<open>initializeTransporter\<close> left a
  transporter: none in simulation mode and in Mailtrap API mode, one for every provider
  \<open>getTransportConfig\<close> knows.
\<close>

record MaintenanceEmailService =
  sv_baseUrl :: string
  sv_smtpConfig :: SMTPConfig
  sv_transporter :: bool

definition auth_user :: "SMTPConfig \<Rightarrow> string option" where
  "auth_user config = map_option fst (sc_auth config)"

definition getTransportConfig :: "SMTPConfig \<Rightarrow> bool" where
  "getTransportConfig config =
     (case sc_provider config of Mailtrap \<Rightarrow> True | Gmail \<Rightarrow> True | Sendgrid \<Rightarrow> True
      | Simulation \<Rightarrow> False)"

definition initializeTransporter :: "SMTPConfig \<Rightarrow> bool" where
  "initializeTransporter config =
     (if sc_provider config = Simulation then False
      else if sc_provider config = Mailtrap \<and> auth_user config = Some ''api'' then False
      else getTransportConfig config)"

definition newMaintenanceEmailService :: "string \<Rightarrow> SMTPConfig \<Rightarrow> MaintenanceEmailService" where
  "newMaintenanceEmailService baseUrl smtpConfig =
     \<lparr>sv_baseUrl = baseUrl, sv_smtpConfig = smtpConfig,
      sv_transporter = initializeTransporter smtpConfig\<rparr>"

definition getDefaultRecipients :: "string \<Rightarrow> EmailRecipient list" where
  "getDefaultRecipients maintenanceType =
     [\<lparr>rc_name = ''John Smith'', rc_email = ''john.smith@ganderaviation.com'', rc_role = ''MECHANIC''\<rparr>,
      \<lparr>rc_name = ''Tom Anderson'', rc_email = ''tom.anderson@ganderaviation.com'', rc_role = ''SUPERVISOR''\<rparr>,
      \<lparr>rc_name = ''Sarah Johnson'', rc_email = ''sarah.johnson@ganderaviation.com'',
       rc_role = ''PARTS_MANAGER''\<rparr>]
     @ (if maintenanceType \<in> set [''C_CHECK'', ''ANNUAL'', ''100_HOUR'']
        then [\<lparr>rc_name = ''David Chen'', rc_email = ''david.chen@ganderaviation.com'',
               rc_role = ''INSPECTOR''\<rparr>]
        else [])
     @ [\<lparr>rc_name = ''Captain Mike Wilson'', rc_email = ''mike.wilson@ganderaviation.com'',
         rc_role = ''PILOT''\<rparr>]"

subsection \<open>Sending one email\<close>

text \<open>
  Of the rendered content only the subject is modelled; the HTML and plain-text bodies
  are string templates over the same data that no function below inspects. Pictographs
  in string literals are left out.
\<close>

record EmailContent =
  ec_subject :: string

definition generateEmailContent ::
  "MaintenanceEmailService \<Rightarrow> MaintenanceEmailData \<Rightarrow> EmailRecipient \<Rightarrow> EmailContent" where
  "generateEmailContent service emailData recipient =
     \<lparr>ec_subject = ''SCHEDULED MAINTENANCE: '' @ ed_tailNumber emailData @ '' - '' @ ed_type emailData\<rparr>"

record EmailResult =
  er_success :: bool
  er_messageId :: "string option"
  er_error :: "string option"

definition make_message_id :: "nat \<Rightarrow> string \<Rightarrow> string" where
  "make_message_id t suffix = ''msg-'' @ show_nat t @ ''-'' @ suffix"

definition net_next :: "env \<Rightarrow> transport_result \<times> env" where
  "net_next e = (net e (net_ix e), e\<lparr>net_ix := Suc (net_ix e)\<rparr>)"

text \<open>
  \<open>sendSimulatedEmail\<close>: one random number for the delay, one for the simulated
  failure; the \<open>throw\<close> is caught by the function's own \<open>catch\<close>.
\<close>

definition sendSimulatedEmail ::
  "EmailRecipient \<Rightarrow> EmailContent \<Rightarrow> MaintenanceEmailData \<Rightarrow> string \<Rightarrow> env \<Rightarrow> EmailResult \<times> env" where
  "sendSimulatedEmail recipient content emailData messageId e =
     (let delay = 100 + rnd e 0 * 200;
          outcome = (if rnd e 1 < 0.05 then Inl ''SMTP connection timeout'' else Inr ())
      in (case outcome of
            Inr _ \<Rightarrow> \<lparr>er_success = True, er_messageId = Some messageId, er_error = None\<rparr>
          | Inl message \<Rightarrow> \<lparr>er_success = False, er_messageId = None, er_error = Some message\<rparr>,
          advance 0 2 e))"

text \<open>
  The three real transports post the message and either get a response, which may carry
  a message id of the provider's, or fail with an error message. The response is read
  from the \<open>net\<close> stream.
\<close>

definition transport_send :: "string \<Rightarrow> env \<Rightarrow> EmailResult \<times> env" where
  "transport_send messageId e =
     (case net_next e of
        (Delivered provider_id, e') \<Rightarrow>
          (\<lparr>er_success = True,
            er_messageId = Some (if falsy provider_id then messageId else the provider_id),
            er_error = None\<rparr>, e')
      | (TransportError message, e') \<Rightarrow>
          (\<lparr>er_success = False, er_messageId = None, er_error = Some message\<rparr>, e'))"

definition sendMailtrapAPIEmail ::
  "EmailRecipient \<Rightarrow> EmailContent \<Rightarrow> MaintenanceEmailData \<Rightarrow> string \<Rightarrow> env \<Rightarrow> EmailResult \<times> env" where
  "sendMailtrapAPIEmail recipient content emailData messageId e = transport_send messageId e"

definition sendMailtrapTestingEmail ::
  "EmailRecipient \<Rightarrow> EmailContent \<Rightarrow> MaintenanceEmailData \<Rightarrow> string \<Rightarrow> env \<Rightarrow> EmailResult \<times> env" where
  "sendMailtrapTestingEmail recipient content emailData messageId e = transport_send messageId e"

definition sendEmail ::
  "MaintenanceEmailService \<Rightarrow> EmailRecipient \<Rightarrow> EmailContent \<Rightarrow> MaintenanceEmailData \<Rightarrow> env
     \<Rightarrow> EmailResult \<times> env" where
  "sendEmail service recipient content emailData e =
     (let messageId = make_message_id (now e 0) (random_suffix e (rnd e 0));
          e1 = (advance 1 1 e)\<lparr>send_calls := send_calls e @ [(rc_email recipient, messageId)]\<rparr>;
          config = sv_smtpConfig service
      in if sc_provider config = Simulation then
           sendSimulatedEmail recipient content emailData messageId e1
         else if sc_provider config = Mailtrap \<and> auth_user config = Some ''api'' then
           sendMailtrapAPIEmail recipient content emailData messageId e1
         else if sc_provider config = Mailtrap \<and> auth_user config = Some ''testing'' then
           sendMailtrapTestingEmail recipient content emailData messageId e1
         else if \<not> sv_transporter service then
           (\<lparr>er_success = False, er_messageId = None,
             er_error = Some ''No email transporter configured''\<rparr>, e1)
         else transport_send messageId e1)"

subsection \<open>The notification dispatcher\<close>

text \<open>
  One pass of the loop body attempts one recipient: the attempt either throws
  (\<open>Inl\<close> with the exception's message) or returns an \<open>EmailResult\<close>. The loop is
  written over any such attempt; \<open>deliver\<close> is the attempt the service makes.
\<close>

type_synonym 'e attempt = "EmailRecipient \<Rightarrow> 'e \<Rightarrow> (string + EmailResult) \<times> 'e"

definition deliver ::
  "MaintenanceEmailService \<Rightarrow> MaintenanceEmailData \<Rightarrow> env attempt" where
  "deliver service emailData recipient e =
     (let emailContent = generateEmailContent service emailData recipient;
          (emailResult, e') = sendEmail service recipient emailContent emailData e
      in (Inr emailResult, e'))"

definition show_undefined :: "string option \<Rightarrow> string" where
  "show_undefined x = (case x of None \<Rightarrow> ''undefined'' | Some v \<Rightarrow> v)"

fun send_loop ::
  "'e attempt \<Rightarrow> EmailRecipient list \<Rightarrow> EmailResult list \<times> string list \<Rightarrow> 'e
     \<Rightarrow> (EmailResult list \<times> string list) \<times> 'e" where
  "send_loop attempt [] acc e = (acc, e)"
| "send_loop attempt (recipient # rest) (emailResults, failures) e =
     (case attempt recipient e of
        (Inr emailResult, e') \<Rightarrow>
          if er_success emailResult
          then send_loop attempt rest (emailResults @ [emailResult], failures) e'
          else send_loop attempt rest
                 (emailResults,
                  failures @ [''Failed to send to '' @ rc_name recipient @ '': ''
                              @ show_undefined (er_error emailResult)]) e'
      | (Inl message, e') \<Rightarrow>
          send_loop attempt rest
            (emailResults,
             failures @ [''Exception sending to '' @ rc_name recipient @ '': '' @ message]) e')"

record EmailSummary =
  sm_success :: bool
  sm_sentEmails :: nat
  sm_failures :: "string list"

definition notification_summary ::
  "'e attempt \<Rightarrow> EmailRecipient list \<Rightarrow> 'e \<Rightarrow> EmailSummary \<times> 'e" where
  "notification_summary attempt recipients e =
     (case send_loop attempt recipients ([], []) e of
        ((emailResults, failures), e') \<Rightarrow>
          (\<lparr>sm_success = (length failures = 0), sm_sentEmails = length emailResults,
            sm_failures = failures\<rparr>, e'))"

definition sendMaintenanceNotificationEmails ::
  "MaintenanceEmailService \<Rightarrow> MaintenanceEmailData \<Rightarrow> EmailRecipient list \<Rightarrow> env
     \<Rightarrow> EmailSummary \<times> env" where
  "sendMaintenanceNotificationEmails service emailData recipients e =
     notification_summary (deliver service emailData) recipients e"

text \<open>
  The outcome of each recipient's individual attempt, in order, with the environment
  threaded from one attempt to the next as the loop does.
\<close>

fun attempt_trace :: "'e attempt \<Rightarrow> EmailRecipient list \<Rightarrow> 'e \<Rightarrow> (string + EmailResult) list" where
  "attempt_trace attempt [] e = []"
| "attempt_trace attempt (recipient # rest) e =
     (case attempt recipient e of (outcome, e') \<Rightarrow> outcome # attempt_trace attempt rest e')"

definition returned_success :: "string + EmailResult \<Rightarrow> bool" where
  "returned_success outcome = (case outcome of Inr emailResult \<Rightarrow> er_success emailResult | Inl _ \<Rightarrow> False)"

section \<open>The agentic workflow (src/lib/agentic-workflow.ts)\<close>

record AuditTrailEntry =
  au_id :: string
  au_timestamp :: timestamp
  au_action :: string
  au_actor :: string
  au_actorType :: string
  au_details :: string
  au_dataChanges :: "(string \<times> string option) list option"
  au_complianceRelevant :: bool

text \<open>
  The rendered \<open>content\<close> of a notification is a text template with locale-formatted
  dates; it is not modelled.
\<close>

record NotificationRecord =
  nr_id :: string
  nr_type :: string
  nr_recipient :: string
  nr_subject :: string
  nr_sentAt :: timestamp
  nr_status :: string
  nr_retryCount :: nat

record TaskAssignment =
  ta_id :: string
  ta_recommendationId :: string
  ta_assigneeType :: string
  ta_assigneeName :: string
  ta_assigneeEmail :: string
  ta_assigneePhone :: "string option"
  ta_taskDescription :: string
  ta_scheduledStart :: timestamp
  ta_estimatedDuration :: nat
  ta_location :: string
  ta_specialInstructions :: "string option"
  ta_requiredTools :: "string list"
  ta_requiredParts :: "string list option"
  ta_status :: string
  ta_notificationsSent :: "NotificationRecord list"
  ta_digitalChecklistUrl :: "string option"
  ta_signOffRequired :: bool

record CalendarEvent =
  ce_id :: string
  ce_title :: string
  ce_description :: string
  ce_start :: timestamp
  ce_end :: timestamp
  ce_location :: string
  ce_attendees :: "string list"
  ce_resources :: "string list"
  ce_calendarSystem :: string
  ce_eventId :: string
  ce_remindersSent :: bool

record ResourceBooking =
  rb_id :: string
  rb_resourceType :: string
  rb_resourceName :: string
  rb_bookedFrom :: timestamp
  rb_bookedUntil :: timestamp
  rb_bookedBy :: string
  rb_recommendationId :: string
  rb_status :: string

text \<open>The tasks of a work order are represented by their ids.\<close>

record WorkOrderCreation =
  wo_id :: string
  wo_recommendationId :: string
  wo_workOrderNumber :: string
  wo_title :: string
  wo_description :: string
  wo_aircraftId :: string
  wo_maintenanceType :: string
  wo_tasks :: "string list"
  wo_assignedMechanic :: string
  wo_assignedInspector :: "string option"
  wo_scheduledStart :: timestamp
  wo_estimatedCompletion :: timestamp
  wo_status :: string
  wo_complianceReferences :: "string list"
  wo_auditTrail :: "AuditTrailEntry list"

record ComplianceLog =
  cl_id :: string
  cl_recommendationId :: string
  cl_regulationType :: string
  cl_regulation :: string
  cl_description :: string
  cl_complianceAction :: string
  cl_loggedAt :: timestamp
  cl_loggedBy :: string
  cl_documentationLinks :: "string list"
  cl_auditReady :: bool

text \<open>
  The object's state: its audit trail, and the callbacks handed to \<open>setTimeout\<close>
  (delay in milliseconds, recommendation id, reminder message).
\<close>

record AgenticMaintenanceWorkflow =
  aw_auditTrail :: "AuditTrailEntry list"
  aw_timers :: "(nat \<times> string \<times> string) list"

definition hours :: "nat \<Rightarrow> nat" where
  "hours h = h * 60 * 60 * 1000"

definition logAuditEntry ::
  "string \<Rightarrow> string \<Rightarrow> string \<Rightarrow> (string \<times> string option) list \<Rightarrow> bool
     \<Rightarrow> AgenticMaintenanceWorkflow \<times> env \<Rightarrow> AgenticMaintenanceWorkflow \<times> env" where
  "logAuditEntry action actor details dataChanges complianceRelevant st =
     (case st of (this, e) \<Rightarrow>
        (let entry =
               \<lparr>au_id = ''audit-'' @ show_nat (now e 0) @ ''-'' @ random_suffix e (rnd e 0),
                au_timestamp = int (now e 1),
                au_action = action,
                au_actor = actor,
                au_actorType = (if actor = ''SYSTEM'' \<or> actor = ''AI_SYSTEM'' then ''SYSTEM'' else ''USER''),
                au_details = details,
                au_dataChanges = (if length dataChanges > 0 then Some dataChanges else None),
                au_complianceRelevant = complianceRelevant\<rparr>
         in (this\<lparr>aw_auditTrail := aw_auditTrail this @ [entry]\<rparr>, advance 2 1 e)))"

definition newAgenticMaintenanceWorkflow :: "env \<Rightarrow> AgenticMaintenanceWorkflow \<times> env" where
  "newAgenticMaintenanceWorkflow e =
     logAuditEntry ''SYSTEM_INIT'' ''SYSTEM'' ''Agentic Maintenance Workflow initialized'' [] True
       (\<lparr>aw_auditTrail = [], aw_timers = []\<rparr>, e)"

definition aCheckTasks :: "string list" where
  "aCheckTasks = [''a-01'', ''a-02'', ''a-03'', ''a-04'', ''a-05'', ''a-06'', ''a-07'', ''a-08'']"

text \<open>\<open>maintenanceChecklists['A_CHECK']?.tasks\<close>, by task ids.\<close>

definition a_check_checklist_tasks :: "string list option" where
  "a_check_checklist_tasks = Some aCheckTasks"

subsection \<open>The automated sequence\<close>

text \<open>
  A step of the sequence returns \<open>Inr\<close> with its value, or \<open>Inl\<close> with the message of
  the exception it throws. None of the steps below contains a \<open>throw\<close> or an operation
  that can fail on its inputs.
\<close>

definition createTaskAssignments :: "string \<Rightarrow> env \<Rightarrow> string + TaskAssignment list \<times> env" where
  "createTaskAssignments recommendationId e =
     Inr ([\<lparr>ta_id = ''assign-'' @ show_nat (now e 0) @ ''-1'',
             ta_recommendationId = recommendationId,
             ta_assigneeType = ''MECHANIC'',
             ta_assigneeName = ''John Smith'',
             ta_assigneeEmail = ''john.smith@example.com'',
             ta_assigneePhone = Some ''+1-555-0123'',
             ta_taskDescription = ''Lead maintenance inspection'',
             ta_scheduledStart = int (now e 1 + hours 24),
             ta_estimatedDuration = 8,
             ta_location = ''Hangar A, Bay 2'',
             ta_specialInstructions = Some ''Review AD compliance checklist before starting'',
             ta_requiredTools = [''Inspection Tools'', ''Torque Wrench'', ''Multimeter''],
             ta_requiredParts = None,
             ta_status = ''ASSIGNED'',
             ta_notificationsSent = [],
             ta_digitalChecklistUrl = None,
             ta_signOffRequired = True\<rparr>,
           \<lparr>ta_id = ''assign-'' @ show_nat (now e 2) @ ''-2'',
             ta_recommendationId = recommendationId,
             ta_assigneeType = ''PARTS_MANAGER'',
             ta_assigneeName = ''Sarah Johnson'',
             ta_assigneeEmail = ''sarah.johnson@example.com'',
             ta_assigneePhone = None,
             ta_taskDescription = ''Prepare required parts and consumables'',
             ta_scheduledStart = int (now e 3 + hours 2),
             ta_estimatedDuration = 2,
             ta_location = ''Parts Department'',
             ta_specialInstructions = None,
             ta_requiredTools = [''Parts Catalog''],
             ta_requiredParts = Some [''Oil Filters'', ''Spark Plugs'', ''Aviation Oil''],
             ta_status = ''ASSIGNED'',
             ta_notificationsSent = [],
             ta_digitalChecklistUrl = None,
             ta_signOffRequired = False\<rparr>],
          advance 4 0 e)"

definition notify_assignment :: "TaskAssignment \<Rightarrow> env \<Rightarrow> TaskAssignment \<times> env" where
  "notify_assignment assignment e =
     (let email =
            \<lparr>nr_id = ''notif-'' @ show_nat (now e 0) @ ''-'' @ ta_id assignment,
             nr_type = ''EMAIL'',
             nr_recipient = ta_assigneeEmail assignment,
             nr_subject = ''Maintenance Task Assignment - '' @ ta_taskDescription assignment,
             nr_sentAt = int (now e 1),
             nr_status = ''SENT'',
             nr_retryCount = 0\<rparr>
      in if falsy (ta_assigneePhone assignment)
         then (assignment\<lparr>ta_notificationsSent := [email]\<rparr>, advance 2 0 e)
         else (assignment\<lparr>ta_notificationsSent :=
                 [email,
                  \<lparr>nr_id = ''notif-sms-'' @ show_nat (now e 2) @ ''-'' @ ta_id assignment,
                   nr_type = ''SMS'',
                   nr_recipient = the (ta_assigneePhone assignment),
                   nr_subject = ''Maintenance Task'',
                   nr_sentAt = int (now e 3),
                   nr_status = ''SENT'',
                   nr_retryCount = 0\<rparr>]\<rparr>,
               advance 4 0 e))"

fun notify_all :: "TaskAssignment list \<Rightarrow> env \<Rightarrow> TaskAssignment list \<times> env" where
  "notify_all [] e = ([], e)"
| "notify_all (assignment # rest) e =
     (case notify_assignment assignment e of
        (assignment', e') \<Rightarrow>
          (case notify_all rest e' of (rest', e'') \<Rightarrow> (assignment' # rest', e'')))"

definition sendNotifications :: "TaskAssignment list \<Rightarrow> env \<Rightarrow> string + TaskAssignment list \<times> env" where
  "sendNotifications assignments e = Inr (notify_all assignments e)"

definition createCalendarEvent :: "string \<Rightarrow> env \<Rightarrow> string + CalendarEvent \<times> env" where
  "createCalendarEvent recommendationId e =
     Inr (\<lparr>ce_id = ''cal-'' @ show_nat (now e 0),
           ce_title = ''Aircraft Maintenance - A-Check'',
           ce_description = ''Scheduled maintenance inspection'',
           ce_start = int (now e 1 + hours 24),
           ce_end = int (now e 2 + hours 32),
           ce_location = ''Hangar A, Bay 2'',
           ce_attendees = [''john.smith@example.com'', ''sarah.johnson@example.com''],
           ce_resources = [''Hangar A'', ''Maintenance Tools'', ''Ground Power Unit''],
           ce_calendarSystem = ''INTERNAL'',
           ce_eventId = ''maint-'' @ recommendationId,
           ce_remindersSent = False\<rparr>,
          advance 3 0 e)"

definition bookResources :: "string \<Rightarrow> env \<Rightarrow> string + ResourceBooking list \<times> env" where
  "bookResources recommendationId e =
     Inr ([\<lparr>rb_id = ''book-'' @ show_nat (now e 0) @ ''-1'',
             rb_resourceType = ''HANGAR'',
             rb_resourceName = ''Hangar A - Bay 2'',
             rb_bookedFrom = int (now e 1 + hours 24),
             rb_bookedUntil = int (now e 2 + hours 32),
             rb_bookedBy = ''Maintenance Scheduler'',
             rb_recommendationId = recommendationId,
             rb_status = ''RESERVED''\<rparr>,
           \<lparr>rb_id = ''book-'' @ show_nat (now e 3) @ ''-2'',
             rb_resourceType = ''GSE'',
             rb_resourceName = ''Ground Power Unit #3'',
             rb_bookedFrom = int (now e 4 + hours 24),
             rb_bookedUntil = int (now e 5 + hours 32),
             rb_bookedBy = ''Maintenance Scheduler'',
             rb_recommendationId = recommendationId,
             rb_status = ''RESERVED''\<rparr>],
          advance 6 0 e)"

text \<open>\<open>s.slice(-6)\<close>: the last six characters.\<close>

definition last6 :: "string \<Rightarrow> string" where
  "last6 s = drop (length s - 6) s"

definition createWorkOrder :: "string \<Rightarrow> string \<Rightarrow> env \<Rightarrow> string + WorkOrderCreation \<times> env" where
  "createWorkOrder recommendationId approvedBy e =
     (let workOrder =
            \<lparr>wo_id = ''wo-'' @ show_nat (now e 0),
             wo_recommendationId = recommendationId,
             wo_workOrderNumber =
               ''WO-'' @ show_nat (full_year e (now e 1)) @ ''-'' @ last6 (show_nat (now e 2)),
             wo_title = ''A-Check Inspection - Scheduled Maintenance'',
             wo_description = ''Comprehensive A-Check inspection per FAA requirements'',
             wo_aircraftId = ''n123ab'',
             wo_maintenanceType = ''A_CHECK'',
             wo_tasks = (case a_check_checklist_tasks of Some tasks \<Rightarrow> tasks | None \<Rightarrow> []),
             wo_assignedMechanic = ''John Smith'',
             wo_assignedInspector = Some ''Mike Wilson'',
             wo_scheduledStart = int (now e 3 + hours 24),
             wo_estimatedCompletion = int (now e 4 + hours 32),
             wo_status = ''CREATED'',
             wo_complianceReferences = [''FAR 91.409'', ''FAR 43.13''],
             wo_auditTrail = []\<rparr>
      in Inr (workOrder\<lparr>wo_auditTrail := wo_auditTrail workOrder @
                 [\<lparr>au_id = ''audit-'' @ show_nat (now e 5),
                   au_timestamp = int (now e 6),
                   au_action = ''WORK_ORDER_CREATED'',
                   au_actor = approvedBy,
                   au_actorType = ''USER'',
                   au_details = ''Work order created from approved recommendation '' @ recommendationId,
                   au_dataChanges = None,
                   au_complianceRelevant = True\<rparr>]\<rparr>,
              advance 7 0 e))"

definition createComplianceLogs :: "string \<Rightarrow> env \<Rightarrow> string + ComplianceLog list \<times> env" where
  "createComplianceLogs recommendationId e =
     Inr ([\<lparr>cl_id = ''comp-'' @ show_nat (now e 0) @ ''-1'',
             cl_recommendationId = recommendationId,
             cl_regulationType = ''FAR_135'',
             cl_regulation = ''FAR 135.411'',
             cl_description = ''Part 135 maintenance schedule compliance'',
             cl_complianceAction = ''Scheduled A-Check inspection per approved maintenance program'',
             cl_loggedAt = int (now e 1),
             cl_loggedBy = ''Agentic Workflow System'',
             cl_documentationLinks = [],
             cl_auditReady = True\<rparr>,
           \<lparr>cl_id = ''comp-'' @ show_nat (now e 2) @ ''-2'',
             cl_recommendationId = recommendationId,
             cl_regulationType = ''FAR_43'',
             cl_regulation = ''FAR 43.13'',
             cl_description = ''Maintenance performance standards'',
             cl_complianceAction = ''Work order created with qualified personnel assignments'',
             cl_loggedAt = int (now e 3),
             cl_loggedBy = ''Agentic Workflow System'',
             cl_documentationLinks = [],
             cl_auditReady = True\<rparr>],
          advance 4 0 e)"

text \<open>
  \<open>scheduleReminders\<close> hands two callbacks to \<open>setTimeout\<close> and returns. The callbacks
  are recorded in \<open>aw_timers\<close>; their later execution by the event loop (each would add a
  \<open>REMINDER_SENT\<close> audit entry, reading the clock and a random number) is not modelled.
\<close>

definition scheduleReminders ::
  "string \<Rightarrow> AgenticMaintenanceWorkflow \<Rightarrow> string + AgenticMaintenanceWorkflow" where
  "scheduleReminders recommendationId this =
     Inr (this\<lparr>aw_timers := aw_timers this @
            [(1000, recommendationId, ''24-hour reminder: Maintenance scheduled for tomorrow''),
             (2000, recommendationId, ''2-hour reminder: Maintenance starting soon'')]\<rparr>)"

record SequenceResult =
  sq_workflowId :: string
  sq_actionsCompleted :: nat
  sq_estimatedCompletion :: timestamp

text \<open>The \<open>catch\<close> block of \<open>executeAutomatedSequence\<close>: log the failure; the caller rethrows.\<close>

definition sequence_failed ::
  "string \<Rightarrow> string \<Rightarrow> nat \<Rightarrow> AgenticMaintenanceWorkflow \<times> env \<Rightarrow> AgenticMaintenanceWorkflow \<times> env" where
  "sequence_failed recommendationId message actionsCompleted st =
     logAuditEntry ''AUTOMATED_SEQUENCE_FAILED'' ''SYSTEM''
       (''Automated sequence failed for recommendation '' @ recommendationId)
       [(''error'', Some message), (''actionsCompleted'', Some (show_nat actionsCompleted))] True st"

definition executeAutomatedSequence ::
  "string \<Rightarrow> string \<Rightarrow> AgenticMaintenanceWorkflow \<times> env
     \<Rightarrow> (string + SequenceResult) \<times> (AgenticMaintenanceWorkflow \<times> env)" where
  "executeAutomatedSequence recommendationId approvedBy st =
     (case st of (this, e) \<Rightarrow>
      (let workflowId = ''workflow-'' @ show_nat (now e 0);
           e0 = advance 1 0 e;
           actions0 = (0::nat)
       in case createTaskAssignments recommendationId e0 of
            Inl m \<Rightarrow> (Inl m, sequence_failed recommendationId m actions0 (this, e0))
          | Inr (assignments, e1) \<Rightarrow>
        (case sendNotifications assignments e1 of
            Inl m \<Rightarrow> (Inl m, sequence_failed recommendationId m actions0 (this, e1))
          | Inr (notified, e2) \<Rightarrow>
        (let actions1 = actions0 + 1
         in case createCalendarEvent recommendationId e2 of
            Inl m \<Rightarrow> (Inl m, sequence_failed recommendationId m actions1 (this, e2))
          | Inr (calendarEvent, e3) \<Rightarrow>
        (case bookResources recommendationId e3 of
            Inl m \<Rightarrow> (Inl m, sequence_failed recommendationId m actions1 (this, e3))
          | Inr (resourceBookings, e4) \<Rightarrow>
        (let actions2 = actions1 + 1
         in case createWorkOrder recommendationId approvedBy e4 of
            Inl m \<Rightarrow> (Inl m, sequence_failed recommendationId m actions2 (this, e4))
          | Inr (workOrder, e5) \<Rightarrow>
        (let actions3 = actions2 + 1
         in case createComplianceLogs recommendationId e5 of
            Inl m \<Rightarrow> (Inl m, sequence_failed recommendationId m actions3 (this, e5))
          | Inr (logs, e6) \<Rightarrow>
        (let actions4 = actions3 + 1
         in case scheduleReminders recommendationId this of
            Inl m \<Rightarrow> (Inl m, sequence_failed recommendationId m actions4 (this, e6))
          | Inr this' \<Rightarrow>
        (let actions5 = actions4 + 1;
             estimatedCompletion = int (now e6 0 + hours 48)
         in (Inr \<lparr>sq_workflowId = workflowId, sq_actionsCompleted = actions5,
                   sq_estimatedCompletion = estimatedCompletion\<rparr>,
             logAuditEntry ''AUTOMATED_SEQUENCE_COMPLETED'' ''SYSTEM''
               (''Completed automated sequence for workflow '' @ workflowId)
               [(''workflowId'', Some workflowId),
                (''recommendationId'', Some recommendationId),
                (''actionsCompleted'', Some (show_nat actions5)),
                (''workOrderId'', Some (wo_id workOrder)),
                (''calendarEventId'', Some (ce_id calendarEvent))] True
               (this', advance 1 0 e6)))))))))))"

record ApprovalResult =
  ar_success :: bool
  ar_workflowId :: string
  ar_message :: string
  ar_estimatedCompletion :: timestamp

text \<open>\<open>AgenticMaintenanceWorkflow.approveRecommendation\<close>.\<close>

definition agentic_approveRecommendation ::
  "string \<Rightarrow> string \<Rightarrow> string option \<Rightarrow> AgenticMaintenanceWorkflow \<times> env
     \<Rightarrow> ApprovalResult \<times> (AgenticMaintenanceWorkflow \<times> env)" where
  "agentic_approveRecommendation recommendationId approvedBy approvalNotes st =
     (let st1 = logAuditEntry ''RECOMMENDATION_APPROVED'' approvedBy
                  (''Approved recommendation '' @ recommendationId)
                  [(''recommendationId'', Some recommendationId), (''approvalNotes'', approvalNotes)]
                  True st
      in case executeAutomatedSequence recommendationId approvedBy st1 of
           (Inr workflowResult, st2) \<Rightarrow>
             (\<lparr>ar_success = True,
               ar_workflowId = sq_workflowId workflowResult,
               ar_message = ''Maintenance workflow initiated successfully. ''
                  @ show_nat (sq_actionsCompleted workflowResult) @ '' automated actions completed.'',
               ar_estimatedCompletion = sq_estimatedCompletion workflowResult\<rparr>, st2)
         | (Inl message, st2) \<Rightarrow>
             (case logAuditEntry ''APPROVAL_FAILED'' ''SYSTEM''
                     (''Failed to process approval for '' @ recommendationId)
                     [(''error'', Some message)] True st2 of
                (this3, e3) \<Rightarrow>
                  (\<lparr>ar_success = False,
                    ar_workflowId = [],
                    ar_message = ''Failed to initiate workflow: '' @ message,
                    ar_estimatedCompletion = int (now e3 0)\<rparr>, (this3, advance 1 0 e3))))"

subsection \<open>The route's module state and responses\<close>

text \<open>
  \<open>mockActiveWorkflows\<close> is a JavaScript object used as a dictionary: an association
  list in insertion order, where \<open>obj[k] = v\<close> replaces the entry of an existing key and
  appends a new one otherwise (\<open>AList.update\<close>), and \<open>Object.keys(obj).length\<close> is its
  length.
\<close>

record server =
  mockRecommendations :: "MaintenanceRecommendation list"
  mockActiveWorkflows :: "(string \<times> ActiveWorkflow) list"
  agenticWorkflow :: AgenticMaintenanceWorkflow
  process_env :: "string \<rightharpoonup> string"
  world :: env

record EmailNotifications =
  en_sent :: nat
  en_recipients :: "EmailRecipient list"
  en_failures :: "string list"
  en_success :: bool

record ApprovePayload =
  ap_success :: bool
  ap_recommendation :: MaintenanceRecommendation
  ap_workflow :: ApprovalResult
  ap_activeWorkflow :: ActiveWorkflow
  ap_emailNotifications :: EmailNotifications
  ap_automatedActions :: "string list"
  ap_message :: string
  ap_timestamp :: timestamp

record RejectPayload =
  rj_success :: bool
  rj_recommendation :: MaintenanceRecommendation
  rj_rejectionReason :: "string option"
  rj_message :: string
  rj_timestamp :: timestamp

record RecommendationsPayload =
  rp_success :: bool
  rp_recommendations :: "MaintenanceRecommendation list"
  rp_totalCount :: nat
  rp_pendingApprovals :: nat
  rp_activeWorkflows :: nat
  rp_timestamp :: timestamp

text \<open>
  \<open>NextResponse.json(body, {status})\<close>: an error body with its status code, or one of the
  success bodies, sent with status 200.
\<close>

datatype response =
  JsonError nat string
| ApproveOk ApprovePayload
| RejectOk RejectPayload
| RecommendationsOk RecommendationsPayload

definition http_status :: "response \<Rightarrow> nat" where
  "http_status r = (case r of JsonError code _ \<Rightarrow> code | _ \<Rightarrow> 200)"

text \<open>
  \<open>find\<close> returns a reference into the array, and the handlers assign to its fields: the
  store afterwards holds the changed record in the place of the first match.
\<close>

fun update_first :: "('a \<Rightarrow> bool) \<Rightarrow> ('a \<Rightarrow> 'a) \<Rightarrow> 'a list \<Rightarrow> 'a list" where
  "update_first p f [] = []"
| "update_first p f (x # xs) = (if p x then f x # xs else x # update_first p f xs)"

record ApproveBody =
  ab_recommendationId :: "string option"
  ab_approvedBy :: "string option"
  ab_approvalNotes :: "string option"

record RejectBody =
  rjb_recommendationId :: "string option"
  rjb_rejectedBy :: "string option"
  rjb_rejectionReason :: "string option"

definition days :: "nat \<Rightarrow> nat" where
  "days d = d * 24 * 60 * 60 * 1000"

subsection \<open>GET ai-recommendations\<close>

definition baseline_100hour :: "Aircraft \<Rightarrow> nat \<Rightarrow> MaintenanceRecommendation" where
  "baseline_100hour aircraft today =
     \<lparr>rec_id = ''baseline-'' @ ac_id aircraft @ ''-100hour'',
      rec_aircraftId = ac_id aircraft,
      rec_tailNumber = ac_tailNumber aircraft,
      rec_maintenanceType = ''100_HOUR'',
      rec_urgency = ''MEDIUM'',
      rec_scheduledDate = int today,
      rec_recommendedDate = int today,
      rec_estimatedCost = 4000,
      rec_estimatedDuration = 8,
      rec_estimatedDowntime = 8,
      rec_description = ''100-hour inspection for '' @ ac_tailNumber aircraft,
      rec_aiConfidence = 0.8,
      rec_reasoning = [''Recurring 100-hour maintenance interval due based on flight hours''],
      rec_status = ''PENDING'',
      rec_workflowId = None,
      rec_complianceRequirements = [''FAR 91.409''],
      rec_riskFactors = [''Routine maintenance''],
      rec_affectedAssets = [ac_tailNumber aircraft],
      rec_requiredPersonnel = [''Certified Mechanic'', ''Inspector''],
      rec_timeWindow = \<lparr>tw_earliest = int today, tw_latest = int (today + days 14),
                        tw_optimal = int (today + days 7)\<rparr>,
      rec_createdAt = int today,
      rec_approvedBy = None,
      rec_approvedAt = None\<rparr>"

definition baseline_annual :: "Aircraft \<Rightarrow> nat \<Rightarrow> MaintenanceRecommendation" where
  "baseline_annual aircraft today =
     \<lparr>rec_id = ''baseline-'' @ ac_id aircraft @ ''-annual'',
      rec_aircraftId = ac_id aircraft,
      rec_tailNumber = ac_tailNumber aircraft,
      rec_maintenanceType = ''ANNUAL'',
      rec_urgency = ''HIGH'',
      rec_scheduledDate = int (today + days 30),
      rec_recommendedDate = int (today + days 30),
      rec_estimatedCost = 18000,
      rec_estimatedDuration = 36,
      rec_estimatedDowntime = 36,
      rec_description = ''Annual inspection for '' @ ac_tailNumber aircraft,
      rec_aiConfidence = 0.95,
      rec_reasoning = [''Annual inspection required by FAR regulations''],
      rec_status = ''PENDING'',
      rec_workflowId = None,
      rec_complianceRequirements = [''FAR 91.409'', ''FAR 43.9''],
      rec_riskFactors = [''Critical maintenance''],
      rec_affectedAssets = [ac_tailNumber aircraft],
      rec_requiredPersonnel = [''Certified Mechanic'', ''Inspector'', ''Supervisor''],
      rec_timeWindow = \<lparr>tw_earliest = int (today + days 21), tw_latest = int (today + days 45),
                        tw_optimal = int (today + days 30)\<rparr>,
      rec_createdAt = int today,
      rec_approvedBy = None,
      rec_approvedAt = None\<rparr>"

text \<open>
  \<open>mockAircraft.flatMap(aircraft => ...)\<close>: the callback reads the clock once per
  aircraft (\<open>const today = new Date()\<close>).
\<close>

fun baselineRecommendations :: "Aircraft list \<Rightarrow> env \<Rightarrow> MaintenanceRecommendation list \<times> env" where
  "baselineRecommendations [] e = ([], e)"
| "baselineRecommendations (aircraft # rest) e =
     (let today = now e 0
      in case baselineRecommendations rest (advance 1 0 e) of
           (others, e') \<Rightarrow>
             ([baseline_100hour aircraft today, baseline_annual aircraft today] @ others, e'))"

definition getAIRecommendations ::
  "string option \<Rightarrow> string option \<Rightarrow> server \<Rightarrow> response \<times> server" where
  "getAIRecommendations tailNumber status s =
     (let filtered0 = mockRecommendations s;
          (filtered1, s1) =
            (if length filtered0 = 0 then
               (case baselineRecommendations mockAircraft (world s) of
                  (baseline, e') \<Rightarrow>
                    (baseline,
                     s\<lparr>mockRecommendations := mockRecommendations s @ baseline, world := e'\<rparr>))
             else (filtered0, s));
          filtered2 = (if falsy tailNumber then filtered1
                       else filter (\<lambda>r. rec_tailNumber r = the tailNumber) filtered1);
          filtered3 = (if falsy status then filtered2
                       else filter (\<lambda>r. rec_status r = the status) filtered2)
      in (RecommendationsOk
            \<lparr>rp_success = True,
             rp_recommendations = filtered3,
             rp_totalCount = length filtered3,
             rp_pendingApprovals = length (filter (\<lambda>r. rec_status r = ''PENDING'') filtered3),
             rp_activeWorkflows =
               length (filter (\<lambda>r. rec_status r \<in> set [''APPROVED'', ''SCHEDULED'', ''IN_PROGRESS''])
                         filtered3),
             rp_timestamp = int (now (world s1) 0)\<rparr>,
          s1\<lparr>world := advance 1 0 (world s1)\<rparr>))"

subsection \<open>POST approve-recommendation and reject-recommendation\<close>

definition recipient_line :: "EmailRecipient \<Rightarrow> string" where
  "recipient_line r = ''    '' @ rc_name r @ '' ('' @ rc_role r @ '') - '' @ rc_email r"

text \<open>
  The route's \<open>approveRecommendation\<close>. Nothing inside its \<open>try\<close> block throws: the
  configuration and the email data are built from fields that are present, and the
  dispatcher catches the failures of every send itself; so the \<open>catch (emailError)\<close>
  block has no counterpart here.
\<close>

definition approveRecommendation :: "ApproveBody \<Rightarrow> server \<Rightarrow> response \<times> server" where
  "approveRecommendation body s =
     (if falsy (ab_recommendationId body) \<or> falsy (ab_approvedBy body) then
        (JsonError 400 ''recommendationId and approvedBy are required'', s)
      else
        (let recommendationId = the (ab_recommendationId body);
             approvedBy = the (ab_approvedBy body);
             approvalNotes = ab_approvalNotes body
         in case find_first (\<lambda>r. rec_id r = recommendationId) (mockRecommendations s) of
              None \<Rightarrow> (JsonError 404 ''Recommendation not found'', s)
            | Some found \<Rightarrow>
           (case find_first (\<lambda>a. ac_id a = rec_aircraftId found) mockAircraft of
              None \<Rightarrow> (JsonError 404 ''Aircraft not found'', s)
            | Some aircraft \<Rightarrow>
           (let e0 = world s;
                approve = (\<lambda>r. r\<lparr>rec_status := ''APPROVED'', rec_approvedBy := Some approvedBy,
                                  rec_approvedAt := Some (int (now e0 0))\<rparr>);
                recommendation = approve found;
                recommendations' =
                  update_first (\<lambda>r. rec_id r = recommendationId) approve (mockRecommendations s);
                e1 = advance 1 0 e0;
                workflowId = ''workflow-'' @ recommendationId;
                (activeWorkflow, e2) =
                  createWorkflowFromRecommendation recommendation
                    (length (mockActiveWorkflows s)) e1;
                workflows' = AList.update workflowId activeWorkflow (mockActiveWorkflows s);
                (workflowResult, (agentic', e3)) =
                  agentic_approveRecommendation recommendationId approvedBy approvalNotes
                    (agenticWorkflow s, e2);
                emailConfig = getEmailConfig (process_env s);
                emailService = newMaintenanceEmailService ''http://localhost:3000'' emailConfig;
                recipients = getDefaultRecipients (rec_maintenanceType recommendation);
                emailData =
                  \<lparr>ed_recommendationId = rec_id recommendation,
                   ed_workflowId = wf_id activeWorkflow,
                   ed_tailNumber = ac_tailNumber aircraft,
                   ed_make = ac_make aircraft,
                   ed_model = ac_model aircraft,
                   ed_totalTime = ac_totalAircraftTime aircraft,
                   ed_type = rec_maintenanceType recommendation,
                   ed_scheduledDate = rec_recommendedDate recommendation,
                   ed_estimatedDuration = rec_estimatedDowntime recommendation,
                   ed_location = rs_hangar (wf_resources activeWorkflow),
                   ed_estimatedCost = rec_estimatedCost recommendation,
                   ed_mechanic = as_mechanic (wf_assignments activeWorkflow),
                   ed_inspector = as_inspector (wf_assignments activeWorkflow),
                   ed_supervisor = as_supervisor (wf_assignments activeWorkflow),
                   ed_hangar = rs_hangar (wf_resources activeWorkflow),
                   ed_equipment = rs_equipment (wf_resources activeWorkflow),
                   ed_parts = rs_parts (wf_resources activeWorkflow),
                   ed_regulations =
                     [''FAR Part 135 - Operating Requirements'',
                      ''FAR Part 43 - Maintenance Requirements'',
                      ''FAR Part 91.409 - Inspection Requirements''],
                   ed_requiredDocumentation =
                     [''Maintenance Log Entry'', ''Work Order Completion'', ''Inspector Sign-off'',
                      ''Return to Service Documentation''],
                   ed_approvedBy = approvedBy,
                   ed_approvedAt = int (now e3 0),
                   ed_notes = approvalNotes\<rparr>;
                e4 = advance 1 0 e3;
                (emailResults, e5) =
                  sendMaintenanceNotificationEmails emailService emailData recipients e4;
                automatedActions =
                  [''Task assignments created and notifications sent'',
                   ''Calendar events scheduled and resources booked'',
                   ''Work order generated with detailed checklists'',
                   ''Compliance logs created for audit trail'',
                   ''Pre-maintenance reminders scheduled'',
                   ''Active workflow tracking initiated'',
                   '' Email notifications sent to '' @ show_nat (sm_sentEmails emailResults)
                     @ '' personnel'']
                  @ map recipient_line recipients
                  @ (if length (sm_failures emailResults) > 0
                     then [''  '' @ show_nat (length (sm_failures emailResults)) @ '' email failures'']
                     else [])
            in (ApproveOk
                  \<lparr>ap_success = ar_success workflowResult,
                   ap_recommendation = recommendation,
                   ap_workflow = workflowResult,
                   ap_activeWorkflow = activeWorkflow,
                   ap_emailNotifications =
                     \<lparr>en_sent = sm_sentEmails emailResults,
                      en_recipients = recipients,
                      en_failures = sm_failures emailResults,
                      en_success = sm_success emailResults\<rparr>,
                   ap_automatedActions = automatedActions,
                   ap_message =
                     (if sm_success emailResults
                      then ar_message workflowResult @ '' Email notifications sent to ''
                             @ show_nat (sm_sentEmails emailResults) @ '' personnel.''
                      else ar_message workflowResult @ '' Email notifications sent to ''
                             @ show_nat (sm_sentEmails emailResults) @ '' personnel with ''
                             @ show_nat (length (sm_failures emailResults)) @ '' failures.''),
                   ap_timestamp = int (now e5 0)\<rparr>,
                s\<lparr>mockRecommendations := recommendations',
                  mockActiveWorkflows := workflows',
                  agenticWorkflow := agentic',
                  world := advance 1 0 e5\<rparr>)))))"

definition rejectRecommendation :: "RejectBody \<Rightarrow> server \<Rightarrow> response \<times> server" where
  "rejectRecommendation body s =
     (if falsy (rjb_recommendationId body) \<or> falsy (rjb_rejectedBy body) then
        (JsonError 400 ''recommendationId and rejectedBy are required'', s)
      else
        (let recommendationId = the (rjb_recommendationId body);
             rejectionReason = rjb_rejectionReason body
         in case find_first (\<lambda>r. rec_id r = recommendationId) (mockRecommendations s) of
              None \<Rightarrow> (JsonError 404 ''Recommendation not found'', s)
            | Some found \<Rightarrow>
               (let reject = (\<lambda>r. r\<lparr>rec_status := ''REJECTED''\<rparr>)
                in (RejectOk
                      \<lparr>rj_success = True,
                       rj_recommendation = reject found,
                       rj_rejectionReason = rejectionReason,
                       rj_message = ''Recommendation rejected successfully'',
                       rj_timestamp = int (now (world s) 0)\<rparr>,
                    s\<lparr>mockRecommendations :=
                        update_first (\<lambda>r. rec_id r = recommendationId) reject (mockRecommendations s),
                      world := advance 1 0 (world s)\<rparr>))))"

section \<open>The recommendation generator (src/unnamed/part_004, from line 422)\<close>

text \<open>
  Where a value of type \<open>any\<close> reaches \<open>Math.min\<close> and \<open>Math.max\<close>, numbers are
  modelled with \<open>NaN\<close>, which both functions propagate.
\<close>

datatype jsnum = Num real | NaN

definition js_min :: "jsnum \<Rightarrow> jsnum \<Rightarrow> jsnum" where
  "js_min a b = (case (a, b) of (Num x, Num y) \<Rightarrow> Num (min x y) | _ \<Rightarrow> NaN)"

definition js_max :: "jsnum \<Rightarrow> jsnum \<Rightarrow> jsnum" where
  "js_max a b = (case (a, b) of (Num x, Num y) \<Rightarrow> Num (max x y) | _ \<Rightarrow> NaN)"

definition in_range :: "real \<Rightarrow> real \<Rightarrow> jsnum \<Rightarrow> bool" where
  "in_range lo hi v = (case v of Num x \<Rightarrow> lo \<le> x \<and> x \<le> hi | NaN \<Rightarrow> False)"

text \<open>
  A field of a parsed JSON object. \<open>ToNumber\<close> of a string is modelled on two kinds of
  strings only: strings of decimal digits (the empty string is 0), and strings that are
  not numeric literals at all, such as \<open>high\<close> or \<open>85%\<close>, which JavaScript converts to
  \<open>NaN\<close>. Numeric literals in other notations (a sign, a fraction, an exponent, a radix
  prefix, surrounding blanks) are outside the modelled inputs: \<open>string_to_number\<close> gives
  \<open>NaN\<close> for them, which is not JavaScript's value.
\<close>

datatype jsany = JUndefined | JNull | JBool bool | JNumber jsnum | JString string

definition is_digit :: "char \<Rightarrow> bool" where
  "is_digit c = (c \<in> set ''0123456789'')"

definition digit_value :: "char \<Rightarrow> nat" where
  "digit_value c = length (takeWhile (\<lambda>d. d \<noteq> c) ''0123456789'')"

definition string_to_number :: "string \<Rightarrow> jsnum" where
  "string_to_number s =
     (if list_all is_digit s then Num (real (foldl (\<lambda>n c. 10 * n + digit_value c) 0 s)) else NaN)"

definition to_number :: "jsany \<Rightarrow> jsnum" where
  "to_number v =
     (case v of JUndefined \<Rightarrow> NaN | JNull \<Rightarrow> Num 0 | JBool b \<Rightarrow> Num (if b then 1 else 0)
      | JNumber n \<Rightarrow> n | JString s \<Rightarrow> string_to_number s)"

definition to_boolean :: "jsany \<Rightarrow> bool" where
  "to_boolean v =
     (case v of JUndefined \<Rightarrow> False | JNull \<Rightarrow> False | JBool b \<Rightarrow> b
      | JNumber n \<Rightarrow> (case n of Num x \<Rightarrow> x \<noteq> 0 | NaN \<Rightarrow> False)
      | JString s \<Rightarrow> s \<noteq> [])"

record ScheduleDemandData =
  sd_currentPeriodDemand :: string
  sd_upcomingBookings :: int
  sd_averageWeeklyUtilization :: real
  sd_demandTrend :: string
  sd_operationalPressure :: string

record SeasonalData =
  se_currentSeason :: string
  se_peakSeason :: bool
  se_seasonalDemandPattern :: string
  se_weatherFactors :: "string list"
  se_maintenanceWindowOpportunity :: string

record MaintenanceRecommendationInput =
  in_tailNumber :: string
  in_aircraftType :: string
  in_totalAircraftTime :: real
  in_totalCycles :: real
  in_utilizationPercentage :: real
  in_flightHours :: real
  in_avgFlightTime :: real
  in_maintenanceRisk :: string
  in_trend :: string
  in_flightHistory :: "(timestamp \<times> real \<times> real) list"
  in_scheduleDemandData :: "ScheduleDemandData option"
  in_seasonalData :: "SeasonalData option"

text \<open>
  The generated recommendation. Its \<open>reasoning\<close> and \<open>riskFactors\<close> texts are templates
  over the same values and are not modelled.
\<close>

record AIMaintenanceRecommendation =
  ai_tailNumber :: string
  ai_maintenanceType :: string
  ai_priority :: string
  ai_confidence :: jsnum
  ai_estimatedCost :: real
  ai_estimatedDuration :: real
  ai_suggestedDate :: timestamp
  ai_complianceRequirements :: "string list"

definition getMaintenanceCost :: "string \<Rightarrow> real" where
  "getMaintenanceCost type =
     (case map_of
        [(''A_CHECK'', 15000), (''B_CHECK'', 35000), (''C_CHECK'', 85000), (''D_CHECK'', 200000),
         (''100_HOUR'', 4000), (''ANNUAL'', 18000), (''PROGRESSIVE'', 25000),
         (''AD_COMPLIANCE'', 8000), (''SB_COMPLIANCE'', 12000), (''ENGINE_OVERHAUL'', 450000),
         (''PROP_OVERHAUL'', 25000)] type of
        Some cost \<Rightarrow> cost | None \<Rightarrow> 10000)"

definition getMaintenanceDuration :: "string \<Rightarrow> real" where
  "getMaintenanceDuration type =
     (case map_of
        [(''A_CHECK'', 8), (''B_CHECK'', 24), (''C_CHECK'', 120), (''D_CHECK'', 720),
         (''100_HOUR'', 4), (''ANNUAL'', 36), (''PROGRESSIVE'', 16), (''AD_COMPLIANCE'', 6),
         (''SB_COMPLIANCE'', 12), (''ENGINE_OVERHAUL'', 240), (''PROP_OVERHAUL'', 48)] type of
        Some duration \<Rightarrow> duration | None \<Rightarrow> 8)"

definition getComplianceRequirements :: "string option \<Rightarrow> string list" where
  "getComplianceRequirements maintenanceType =
     (case maintenanceType of
        None \<Rightarrow> [''FAR 91.409'']
      | Some type \<Rightarrow>
         (case map_of
            [(''A_CHECK'', [''FAR 91.409'', ''FAR 135.421'']),
             (''B_CHECK'', [''FAR 91.409'', ''FAR 135.421'', ''FAR 145.109'']),
             (''C_CHECK'', [''FAR 91.409'', ''FAR 135.421'', ''FAR 145.109'']),
             (''ANNUAL'', [''FAR 91.409'', ''FAR 91.411'']),
             (''100_HOUR'', [''FAR 91.409'', ''FAR 135.421'']),
             (''AD_COMPLIANCE'', [''FAR 39.7'', ''FAR 91.403'']),
             (''ENGINE_OVERHAUL'', [''FAR 91.421'', ''FAR 135.421''])] type of
            Some requirements \<Rightarrow> requirements | None \<Rightarrow> [''FAR 91.409'']))"

definition getCurrentSeason :: "nat \<Rightarrow> string" where
  "getCurrentSeason month =
     (if month \<ge> 2 \<and> month \<le> 4 then ''SPRING''
      else if month \<ge> 5 \<and> month \<le> 7 then ''SUMMER''
      else if month \<ge> 8 \<and> month \<le> 10 then ''FALL''
      else ''WINTER'')"

definition isPeakSeason :: "nat \<Rightarrow> bool" where
  "isPeakSeason month = ((month \<ge> 5 \<and> month \<le> 7) \<or> month = 11 \<or> month = 0)"

definition getSeasonalWeatherFactors :: "string \<Rightarrow> string list" where
  "getSeasonalWeatherFactors season =
     (case map_of
        [(''SPRING'', [''Variable weather patterns'', ''Increased turbulence'', ''Pollen and dust exposure'']),
         (''SUMMER'', [''High temperature operations'', ''Thunderstorm activity'', ''Increased UV exposure'']),
         (''FALL'', [''Temperature fluctuations'', ''Increased precipitation'', ''Seasonal wind patterns'']),
         (''WINTER'', [''Cold weather operations'', ''Ice and snow conditions'', ''Reduced daylight hours''])]
        season of
        Some factors \<Rightarrow> factors | None \<Rightarrow> [])"

definition getMaintenanceWindowOpportunity :: "nat \<Rightarrow> string" where
  "getMaintenanceWindowOpportunity month =
     (let isPeak = isPeakSeason month
      in if \<not> isPeak \<and> (month = 1 \<or> month = 2 \<or> month = 9 \<or> month = 10) then ''EXCELLENT''
         else if \<not> isPeak then ''GOOD''
         else if month = 6 \<or> month = 7 then ''LIMITED''
         else ''POOR'')"

subsection \<open>The demo generator\<close>

text \<open>\<open>Math.round(x)\<close> rounds half up.\<close>

definition js_round :: "real \<Rightarrow> int" where
  "js_round x = \<lfloor>x + 1 / 2\<rfloor>"

text \<open>
  The confidence of one demo recommendation: \<open>maintenanceWindow\<close> is the window computed
  from the current date, \<open>seasonalWindow\<close> the one of the (given or default) seasonal
  data, \<open>r\<close> the random number. The arithmetic is over the reals: at a rounding boundary
  the floating-point \<open>Math.round(confidence * 10) / 10\<close> can differ from it by one tenth,
  within the same bounds 52 and 94.
\<close>

definition demo_confidence ::
  "string \<Rightarrow> string \<Rightarrow> string \<Rightarrow> nat \<Rightarrow> real \<Rightarrow> string \<Rightarrow> real \<Rightarrow> real" where
  "demo_confidence demand maintenanceWindow seasonalWindow historyLength utilization risk r =
     (let c0 = 65;
          c1 = (if demand = ''LOW'' \<and> maintenanceWindow = ''EXCELLENT'' then c0 + 20
                else if demand = ''HIGH'' \<and> maintenanceWindow = ''POOR'' then c0 - 15
                else if demand = ''MEDIUM'' then c0 + 8 else c0);
          c2 = (if seasonalWindow = ''EXCELLENT'' then c1 + 15
                else if seasonalWindow = ''POOR'' then c1 - 12 else c1);
          c3 = (if historyLength > 20 then c2 + 10
                else if historyLength > 10 then c2 + 5 else c2);
          c4 = (if utilization > 70 then c3 + 8
                else if utilization > 40 then c3 + 4 else c3 - 5);
          c5 = (if risk = ''HIGH'' then c4 + 8
                else if risk = ''LOW'' then c4 - 3 else c4);
          c6 = c5 + (r - 0.5) * 15
      in max 52 (min 94 (real_of_int (js_round (c6 * 10)) / 10)))"

definition demo_maintenanceTypes :: "string list" where
  "demo_maintenanceTypes =
     [''A_CHECK'', ''B_CHECK'', ''C_CHECK'', ''100_HOUR'', ''ANNUAL'', ''PROGRESSIVE'', ''AD_COMPLIANCE'']"

text \<open>
  The inner \<open>for\<close> loop over \<open>i\<close>, with the number of remaining iterations as the
  recursion argument. Each iteration draws two random numbers and reads the clock once.
\<close>

fun demo_inner ::
  "string \<Rightarrow> MaintenanceRecommendationInput \<Rightarrow> ScheduleDemandData \<Rightarrow> SeasonalData
     \<Rightarrow> nat \<Rightarrow> nat \<Rightarrow> env \<Rightarrow> AIMaintenanceRecommendation list \<times> env" where
  "demo_inner maintenanceWindow input scheduleDemand seasonalData 0 i e = ([], e)"
| "demo_inner maintenanceWindow input scheduleDemand seasonalData (Suc n) i e =
     (let maintenanceType =
            demo_maintenanceTypes ! nat \<lfloor>rnd e 0 * real (length demo_maintenanceTypes)\<rfloor>;
          confidence =
            demo_confidence (sd_currentPeriodDemand scheduleDemand) maintenanceWindow
              (se_maintenanceWindowOpportunity seasonalData) (length (in_flightHistory input))
              (in_utilizationPercentage input) (in_maintenanceRisk input) (rnd e 1);
          recommendation =
            \<lparr>ai_tailNumber = in_tailNumber input,
             ai_maintenanceType = maintenanceType,
             ai_priority =
               (if sd_operationalPressure scheduleDemand = ''HIGH'' \<and> in_maintenanceRisk input = ''HIGH''
                then ''HIGH''
                else if sd_operationalPressure scheduleDemand = ''HIGH''
                        \<or> in_maintenanceRisk input = ''MEDIUM''
                then ''MEDIUM'' else ''LOW''),
             ai_confidence = Num confidence,
             ai_estimatedCost = getMaintenanceCost maintenanceType,
             ai_estimatedDuration = getMaintenanceDuration maintenanceType,
             ai_suggestedDate = int (now e 0 + days (7 + i * 14)),
             ai_complianceRequirements = getComplianceRequirements (Some maintenanceType)\<rparr>
      in case demo_inner maintenanceWindow input scheduleDemand seasonalData n (Suc i)
                (advance 1 2 e) of
           (others, e') \<Rightarrow> (recommendation # others, e'))"

text \<open>\<open>inputs.forEach\<close>: default demand data costs one random number.\<close>

fun demo_outer ::
  "string \<Rightarrow> bool \<Rightarrow> string \<Rightarrow> MaintenanceRecommendationInput list \<Rightarrow> env
     \<Rightarrow> AIMaintenanceRecommendation list \<times> env" where
  "demo_outer currentSeason isPeak maintenanceWindow [] e = ([], e)"
| "demo_outer currentSeason isPeak maintenanceWindow (input # rest) e =
     (let (scheduleDemand, e1) =
            (case in_scheduleDemandData input of
               Some given \<Rightarrow> (given, e)
             | None \<Rightarrow>
                 (\<lparr>sd_currentPeriodDemand = (if isPeak then ''HIGH'' else ''MEDIUM''),
                   sd_upcomingBookings = \<lfloor>rnd e 0 * 20\<rfloor> + 10,
                   sd_averageWeeklyUtilization = in_utilizationPercentage input,
                   sd_demandTrend = in_trend input,
                   sd_operationalPressure = (if isPeak then ''HIGH'' else ''MEDIUM'')\<rparr>,
                  advance 0 1 e));
          seasonalData =
            (case in_seasonalData input of
               Some given \<Rightarrow> given
             | None \<Rightarrow>
                 \<lparr>se_currentSeason = currentSeason,
                  se_peakSeason = isPeak,
                  se_seasonalDemandPattern = ''BUSINESS_TRAVEL'',
                  se_weatherFactors = getSeasonalWeatherFactors currentSeason,
                  se_maintenanceWindowOpportunity = maintenanceWindow\<rparr>);
          recCount = min 4 (max 2 \<lfloor>in_utilizationPercentage input / 25\<rfloor>);
          (recommendations, e2) =
            demo_inner maintenanceWindow input scheduleDemand seasonalData (nat recCount) 0 e1;
          (others, e3) = demo_outer currentSeason isPeak maintenanceWindow rest e2
      in (recommendations @ others, e3))"

definition generateEnhancedDemoRecommendations ::
  "MaintenanceRecommendationInput list \<Rightarrow> env \<Rightarrow> AIMaintenanceRecommendation list \<times> env" where
  "generateEnhancedDemoRecommendations inputs e =
     (let month = month_of e (now e 0);
          currentSeason = getCurrentSeason month;
          isPeak = isPeakSeason month;
          maintenanceWindow = getMaintenanceWindowOpportunity month;
          (recommendations, e') =
            demo_outer currentSeason isPeak maintenanceWindow inputs (advance 1 0 e)
      in (take 15 recommendations, e'))"

subsection \<open>Recommendations returned by the language model\<close>

record RawRecommendation =
  raw_tailNumber :: "string option"
  raw_maintenanceType :: "string option"
  raw_priority :: "string option"
  raw_confidence :: jsany
  raw_estimatedCost :: "real option"
  raw_estimatedDuration :: "real option"
  raw_suggestedDateOffset :: "real option"
  raw_complianceRequirements :: "string list option"

text \<open>\<open>x || d\<close> on a number that may be absent: absent and 0 are falsy.\<close>

definition num_or :: "real option \<Rightarrow> real \<Rightarrow> real" where
  "num_or x d = (case x of None \<Rightarrow> d | Some v \<Rightarrow> if v = 0 then d else v)"

definition any_or :: "jsany \<Rightarrow> jsany \<Rightarrow> jsany" where
  "any_or x d = (if to_boolean x then x else d)"

definition process_one :: "RawRecommendation \<Rightarrow> env \<Rightarrow> AIMaintenanceRecommendation \<times> env" where
  "process_one rec e =
     (\<lparr>ai_tailNumber = str_or (raw_tailNumber rec) [],
       ai_maintenanceType = str_or (raw_maintenanceType rec) ''A_CHECK'',
       ai_priority = str_or (raw_priority rec) ''MEDIUM'',
       ai_confidence =
         js_max (Num 50) (js_min (Num 95) (to_number (any_or (raw_confidence rec) (JNumber (Num 75))))),
       ai_estimatedCost = num_or (raw_estimatedCost rec) 10000,
       ai_estimatedDuration = num_or (raw_estimatedDuration rec) 8,
       ai_suggestedDate =
         date_of (real (now e 0) + num_or (raw_suggestedDateOffset rec) 7 * 24 * 60 * 60 * 1000),
       ai_complianceRequirements =
         (case raw_complianceRequirements rec of
            Some requirements \<Rightarrow> requirements
          | None \<Rightarrow> getComplianceRequirements (raw_maintenanceType rec))\<rparr>,
      advance 1 0 e)"

fun process_all :: "RawRecommendation list \<Rightarrow> env \<Rightarrow> AIMaintenanceRecommendation list \<times> env" where
  "process_all [] e = ([], e)"
| "process_all (rec # rest) e =
     (case process_one rec e of
        (recommendation, e') \<Rightarrow>
          (case process_all rest e' of (others, e'') \<Rightarrow> (recommendation # others, e'')))"

text \<open>
  \<open>aiResult.recommendations\<close> is \<open>None\<close> when the field is missing or not an array: the
  function then throws.
\<close>

definition processAIRecommendations ::
  "RawRecommendation list option \<Rightarrow> env \<Rightarrow> string + AIMaintenanceRecommendation list \<times> env" where
  "processAIRecommendations recommendations e =
     (case recommendations of
        None \<Rightarrow> Inl ''Invalid AI response format''
      | Some recs \<Rightarrow> Inr (process_all recs e))"

text \<open>
  The reply of the completion endpoint: the call failed, or gave no content, or content
  that does not parse to an object (each of which throws inside the \<open>try\<close>), or it
  parsed to an object with the given \<open>recommendations\<close> field.
\<close>

datatype llm_reply = ReplyFailed string | ReplyParsed "RawRecommendation list option"

definition generateMaintenanceRecommendations ::
  "string option \<Rightarrow> llm_reply \<Rightarrow> MaintenanceRecommendationInput list \<Rightarrow> env
     \<Rightarrow> AIMaintenanceRecommendation list \<times> env" where
  "generateMaintenanceRecommendations apiKey reply inputs e =
     (if falsy apiKey \<or> apiKey = Some ''demo-mode'' then
        generateEnhancedDemoRecommendations inputs e
      else
        (let e1 = advance 1 0 e
         in case reply of
              ReplyFailed message \<Rightarrow> generateEnhancedDemoRecommendations inputs e1
            | ReplyParsed aiResult \<Rightarrow>
                (case processAIRecommendations aiResult e1 of
                   Inl message \<Rightarrow> generateEnhancedDemoRecommendations inputs e1
                 | Inr result \<Rightarrow> result)))"

section \<open>The initial state and example inputs\<close>

text \<open>The module state after loading: empty stores, and the workflow object constructed.\<close>

definition initial_server :: "(string \<rightharpoonup> string) \<Rightarrow> env \<Rightarrow> server" where
  "initial_server penv e =
     (case newAgenticMaintenanceWorkflow e of
        (workflow, e') \<Rightarrow>
          \<lparr>mockRecommendations = [], mockActiveWorkflows = [], agenticWorkflow = workflow,
           process_env = penv, world = e'\<rparr>)"

text \<open>
  An environment used for the example runs: the clock advances one second per reading,
  every random number is \<open>1/2\<close>, and the transport accepts every message. The example
  streams contain no random number but \<open>1/2\<close> and 0, printed in base 36 as \<open>0.i\<close> and
  \<open>0\<close>; the printing table lists these two.
\<close>

definition example_env :: env where
  "example_env =
     \<lparr>clock = (\<lambda>n. 1700000000000 + 1000 * n), clock_ix = 0,
      rng = (\<lambda>n. 1 / 2), rng_ix = 0,
      net = (\<lambda>n. Delivered None), net_ix = 0,
      full_year = (\<lambda>t. 2023), month_of = (\<lambda>t. 10),
      radix36 = (\<lambda>r. if r = 1 / 2 then ''0.i'' else ''0''),
      send_calls = []\<rparr>"

definition example_server :: server where
  "example_server = initial_server Map.empty example_env"

definition example_recommendation :: MaintenanceRecommendation where
  "example_recommendation = baseline_100hour (mockAircraft ! 0) 1700000000000"

text \<open>An environment whose first eight random numbers are 0 and whose later ones are \<open>1/2\<close>.\<close>

definition varying_env :: env where
  "varying_env = example_env\<lparr>rng := (\<lambda>n. if n < 8 then 0 else 1 / 2)\<rparr>"

text \<open>The readings \<open>createWorkflowFromRecommendation\<close> takes from the environment.\<close>

definition workflow_draws :: "env \<Rightarrow> real list \<times> nat list" where
  "workflow_draws e = (map (rnd e) [0, 1, 2, 3, 4, 5, 6, 7], map (now e) [0, 1, 2, 3, 4])"

text \<open>Stores and requests used to run the handlers on concrete inputs.\<close>

definition unknown_aircraft_server :: server where
  "unknown_aircraft_server =
     example_server\<lparr>mockRecommendations :=
       [example_recommendation\<lparr>rec_id := ''rec-1'', rec_aircraftId := ''unknown''\<rparr>]\<rparr>"

definition duplicate_id_server :: server where
  "duplicate_id_server =
     example_server\<lparr>mockRecommendations :=
       [example_recommendation\<lparr>rec_id := ''rec-1''\<rparr>,
        example_recommendation\<lparr>rec_id := ''rec-1'', rec_urgency := ''HIGH''\<rparr>]\<rparr>"

definition empty_id_server :: server where
  "empty_id_server =
     example_server\<lparr>mockRecommendations := [example_recommendation\<lparr>rec_id := []\<rparr>]\<rparr>"

definition pending_server :: server where
  "pending_server = example_server\<lparr>mockRecommendations := [example_recommendation]\<rparr>"

definition approve_request :: "string \<Rightarrow> ApproveBody" where
  "approve_request rid =
     \<lparr>ab_recommendationId = Some rid, ab_approvedBy = Some ''ops-manager'', ab_approvalNotes = None\<rparr>"

definition reject_request :: "string \<Rightarrow> RejectBody" where
  "reject_request rid =
     \<lparr>rjb_recommendationId = Some rid, rjb_rejectedBy = Some ''ops-manager'',
      rjb_rejectionReason = Some ''not needed''\<rparr>"

definition stale_workflow_server :: server where
  "stale_workflow_server =
     pending_server\<lparr>mockActiveWorkflows :=
       [(''workflow-baseline-n123ab-100hour'',
         fst (createWorkflowFromRecommendation example_recommendation 0 example_env))]\<rparr>"

text \<open>An environment whose clock stands still, and the service in simulation mode.\<close>

definition frozen_env :: env where
  "frozen_env = example_env\<lparr>clock := (\<lambda>n. 1700000000000)\<rparr>"

definition simulation_service :: MaintenanceEmailService where
  "simulation_service =
     newMaintenanceEmailService ''http://localhost:3000'' (getEmailConfig Map.empty)"

definition example_recipient :: EmailRecipient where
  "example_recipient = getDefaultRecipients ''A_CHECK'' ! 0"

definition example_email_data :: MaintenanceEmailData where
  "example_email_data =
     \<lparr>ed_recommendationId = ''baseline-n123ab-100hour'',
      ed_workflowId = ''workflow-baseline-n123ab-100hour'',
      ed_tailNumber = ''N123AB'', ed_make = ''Gulfstream'', ed_model = ''G550'', ed_totalTime = 2450,
      ed_type = ''100_HOUR'', ed_scheduledDate = 1700000000000, ed_estimatedDuration = 8,
      ed_location = ''Hangar A - Bay 1'', ed_estimatedCost = 4000,
      ed_mechanic = ''John Smith'', ed_inspector = None, ed_supervisor = ''Tom Anderson'',
      ed_hangar = ''Hangar A - Bay 1'', ed_equipment = getRequiredEquipment ''100_HOUR'',
      ed_parts = [''Oil Filter''],
      ed_regulations = [''FAR Part 135 - Operating Requirements''],
      ed_requiredDocumentation = [''Maintenance Log Entry''],
      ed_approvedBy = ''ops-manager'', ed_approvedAt = 1700000000000, ed_notes = None\<rparr>"

definition example_content :: EmailContent where
  "example_content = generateEmailContent simulation_service example_email_data example_recipient"

text \<open>
  A recommendation as a language model may return it: the confidence is given as text.
\<close>

definition text_confidence_recommendation :: RawRecommendation where
  "text_confidence_recommendation =
     \<lparr>raw_tailNumber = Some ''N123AB'', raw_maintenanceType = Some ''A_CHECK'',
      raw_priority = Some ''HIGH'', raw_confidence = JString ''85%'',
      raw_estimatedCost = Some 15000, raw_estimatedDuration = Some 24,
      raw_suggestedDateOffset = Some 7, raw_complianceRequirements = Some [''FAR 91.409'']\<rparr>"

definition example_input :: MaintenanceRecommendationInput where
  "example_input =
     \<lparr>in_tailNumber = ''N123AB'', in_aircraftType = ''Gulfstream G550'',
      in_totalAircraftTime = 2450, in_totalCycles = 1850, in_utilizationPercentage = 80,
      in_flightHours = 120, in_avgFlightTime = 2, in_maintenanceRisk = ''HIGH'',
      in_trend = ''INCREASING'', in_flightHistory = [],
      in_scheduleDemandData = None, in_seasonalData = None\<rparr>"

section \<open>Properties of the scheduler\<close>

lemma mutateSchedule_id: "mutateSchedule schedule patterns = schedule"
  by (simp add: mutateSchedule_def)

lemma evaluateSchedule_const:
  "evaluateSchedule config s1 patterns flights = evaluateSchedule config s2 patterns flights"
  by (simp add: evaluateSchedule_def calculateCostScore_def calculateAvailabilityScore_def
      calculateUtilizationScore_def calculateSafetyScore_def)

lemma improvement_loop_fixed:
  "improvement_loop config patterns flights n
     (schedule, evaluateSchedule config schedule patterns flights)
   = (schedule, evaluateSchedule config schedule patterns flights)"
  by (induction n) (simp_all add: mutateSchedule_id)

text \<open>
  C5: for every list of predicted maintenance items, and any flight plans, utilization
  patterns, work orders and configuration weights, the iterative-improvement loop of
  \<open>optimizeSchedule\<close> returns its input list: the mutation is the identity, the score
  does not depend on the candidate, and none of the 100 iterations replaces the
  initial schedule.
\<close>

theorem optimizeSchedule_returns_input:
  "optimizeSchedule config predictedMaintenance upcomingFlights patterns currentWorkOrders
     = predictedMaintenance
   \<and> mutateSchedule candidate patterns = candidate
   \<and> \<not> (evaluateSchedule config (mutateSchedule candidate patterns) patterns upcomingFlights
          > evaluateSchedule config predictedMaintenance patterns upcomingFlights)
   \<and> improvement_loop config patterns upcomingFlights iterations
        (predictedMaintenance, evaluateSchedule config predictedMaintenance patterns upcomingFlights)
      = (predictedMaintenance, evaluateSchedule config predictedMaintenance patterns upcomingFlights)"
proof -
  have "evaluateSchedule config (mutateSchedule candidate patterns) patterns upcomingFlights
        = evaluateSchedule config predictedMaintenance patterns upcomingFlights"
    by (rule evaluateSchedule_const)
  then show ?thesis
    by (simp add: optimizeSchedule_def improvement_loop_fixed mutateSchedule_id)
qed

section \<open>Properties of the notification dispatcher\<close>

lemma send_loop_counts:
  "send_loop attempt recipients (results, failures) e = ((results', failures'), e') \<Longrightarrow>
   length results' = length results + length (filter returned_success (attempt_trace attempt recipients e))
   \<and> length results' + length failures' = length results + length failures + length recipients"
proof (induction recipients arbitrary: results failures e)
  case Nil
  then show ?case by simp
next
  case (Cons r rs)
  obtain out e1 where a: "attempt r e = (out, e1)" by (cases "attempt r e")
  show ?case
  proof (cases out)
    case (Inl m)
    with a Cons.prems Cons.IH[of results "failures @ [''Exception sending to '' @ rc_name r @ '': '' @ m]" e1]
    show ?thesis by (simp add: returned_success_def)
  next
    case (Inr res)
    show ?thesis
    proof (cases "er_success res")
      case True
      with a Inr Cons.prems Cons.IH[of "results @ [res]" failures e1]
      show ?thesis by (simp add: returned_success_def)
    next
      case False
      with a Inr Cons.prems
        Cons.IH[of results "failures @ [''Failed to send to '' @ rc_name r @ '': '' @ show_undefined (er_error res)]" e1]
      show ?thesis by (simp add: returned_success_def)
    qed
  qed
qed

lemma notification_summary_counts:
  "sm_sentEmails (fst (notification_summary attempt recipients e))
     = length (filter returned_success (attempt_trace attempt recipients e))
   \<and> length (sm_failures (fst (notification_summary attempt recipients e)))
       + sm_sentEmails (fst (notification_summary attempt recipients e)) = length recipients
   \<and> (sm_success (fst (notification_summary attempt recipients e))
        = (sm_failures (fst (notification_summary attempt recipients e)) = []))"
proof -
  obtain rs fs e' where l: "send_loop attempt recipients ([], []) e = ((rs, fs), e')"
    by (metis surj_pair)
  from send_loop_counts[OF l] l show ?thesis
    by (simp add: notification_summary_def)
qed

text \<open>
  C3: for every service configuration, list of recipients, email payload and
  environment, the summary returned by \<open>sendMaintenanceNotificationEmails\<close> has
  \<open>sentEmails\<close> equal to the number of recipients whose individual send returned success,
  \<open>failures.length + sentEmails\<close> equal to the number of recipients, and \<open>success\<close> true
  exactly when \<open>failures\<close> is empty. The same holds of the loop run over any per-recipient
  attempt, including attempts that throw.
\<close>

theorem dispatcher_counts:
  "sm_sentEmails (fst (sendMaintenanceNotificationEmails service emailData recipients e))
     = length (filter returned_success (attempt_trace (deliver service emailData) recipients e))
   \<and> length (sm_failures (fst (sendMaintenanceNotificationEmails service emailData recipients e)))
       + sm_sentEmails (fst (sendMaintenanceNotificationEmails service emailData recipients e))
       = length recipients
   \<and> (sm_success (fst (sendMaintenanceNotificationEmails service emailData recipients e))
        = (sm_failures (fst (sendMaintenanceNotificationEmails service emailData recipients e)) = []))
   \<and> sm_sentEmails (fst (notification_summary attempt recipients x))
     = length (filter returned_success (attempt_trace attempt recipients x))
   \<and> length (sm_failures (fst (notification_summary attempt recipients x)))
       + sm_sentEmails (fst (notification_summary attempt recipients x)) = length recipients
   \<and> (sm_success (fst (notification_summary attempt recipients x))
        = (sm_failures (fst (notification_summary attempt recipients x)) = []))"
  unfolding sendMaintenanceNotificationEmails_def
  using notification_summary_counts[of "deliver service emailData" recipients e]
    notification_summary_counts[of attempt recipients x]
  by blast

section \<open>Reading the environment\<close>

lemma advance_advance [simp]: "advance a b (advance c d e) = advance (a + c) (b + d) e"
  by (simp add: advance_def add.commute)

lemma now_advance [simp]: "now (advance a b e) k = now e (a + k)"
  by (simp add: advance_def now_def add.assoc)

lemma rnd_advance [simp]: "rnd (advance a b e) k = rnd e (b + k)"
  by (simp add: advance_def rnd_def add.assoc)

lemma advance_zero [simp]: "advance 0 0 e = e"
  by (simp add: advance_def)

lemma send_calls_advance [simp]: "send_calls (advance a b e) = send_calls e"
  by (simp add: advance_def)

lemma rnd_range: "0 \<le> rnd e k \<and> rnd e k < 1"
  by (simp add: rnd_def Let_def)

section \<open>Properties of GET ai-recommendations\<close>

lemma baseline_mock:
  "baselineRecommendations mockAircraft e =
     ([baseline_100hour (mockAircraft ! 0) (now e 0), baseline_annual (mockAircraft ! 0) (now e 0),
       baseline_100hour (mockAircraft ! 1) (now e 1), baseline_annual (mockAircraft ! 1) (now e 1),
       baseline_100hour (mockAircraft ! 2) (now e 2), baseline_annual (mockAircraft ! 2) (now e 2)],
      advance 3 0 e)"
  unfolding mockAircraft_def by (simp add: Let_def numeral_2_eq_2 numeral_3_eq_3)

lemma baseline_status [simp]:
  "rec_status (baseline_100hour a t) = ''PENDING''" "rec_status (baseline_annual a t) = ''PENDING''"
  by (simp_all add: baseline_100hour_def baseline_annual_def)

lemma baseline_type [simp]:
  "rec_maintenanceType (baseline_100hour a t) = ''100_HOUR''"
  "rec_maintenanceType (baseline_annual a t) = ''ANNUAL''"
  by (simp_all add: baseline_100hour_def baseline_annual_def)

lemma baseline_aircraft [simp]:
  "rec_aircraftId (baseline_100hour a t) = ac_id a"
  "rec_aircraftId (baseline_annual a t) = ac_id a"
  by (simp_all add: baseline_100hour_def baseline_annual_def)

lemma get_seeds:
  "mockRecommendations s = [] \<Longrightarrow>
   mockRecommendations (snd (getAIRecommendations tailNumber status s))
     = fst (baselineRecommendations mockAircraft (world s))"
  by (simp add: getAIRecommendations_def Let_def split_beta)

lemma get_keeps:
  "mockRecommendations s \<noteq> [] \<Longrightarrow>
   mockRecommendations (snd (getAIRecommendations tailNumber status s)) = mockRecommendations s"
  by (simp add: getAIRecommendations_def Let_def split_beta)
lemma get_payload:
  "\<exists>p. fst (getAIRecommendations tailNumber status s) = RecommendationsOk p
     \<and> rp_totalCount p = length (rp_recommendations p)
     \<and> rp_pendingApprovals p
         = length (filter (\<lambda>r. rec_status r = ''PENDING'') (rp_recommendations p))
     \<and> (falsy tailNumber \<and> falsy status \<longrightarrow>
          rp_recommendations p = mockRecommendations (snd (getAIRecommendations tailNumber status s)))"
  by (simp add: getAIRecommendations_def Let_def split_beta)

lemma baseline_nonempty: "fst (baselineRecommendations mockAircraft e) \<noteq> []"
  by (simp add: baseline_mock)

lemma get_store_nonempty:
  "mockRecommendations (snd (getAIRecommendations tailNumber status s)) \<noteq> []"
  by (cases "mockRecommendations s = []") (simp_all add: get_seeds get_keeps baseline_nonempty)

text \<open>
  C10: when the store is empty, the handler first seeds it with two PENDING baseline
  recommendations (100_HOUR and ANNUAL) per mock aircraft, six for the three mock
  aircraft; the unfiltered response is never empty; and in every response \<open>totalCount\<close>
  is the length of the returned list and \<open>pendingApprovals\<close> the number of returned
  recommendations with status PENDING.
\<close>

theorem getAIRecommendations_seeds_and_counts:
  "\<exists>p s'. getAIRecommendations tailNumber status s = (RecommendationsOk p, s')
     \<and> rp_totalCount p = length (rp_recommendations p)
     \<and> rp_pendingApprovals p
         = length (filter (\<lambda>r. rec_status r = ''PENDING'') (rp_recommendations p))
     \<and> (falsy tailNumber \<and> falsy status \<longrightarrow>
          rp_recommendations p = mockRecommendations s' \<and> rp_recommendations p \<noteq> [])
     \<and> (mockRecommendations s = [] \<longrightarrow>
          map (\<lambda>r. (rec_aircraftId r, rec_maintenanceType r, rec_status r)) (mockRecommendations s')
            = concat (map (\<lambda>a. [(ac_id a, ''100_HOUR'', ''PENDING''), (ac_id a, ''ANNUAL'', ''PENDING'')])
                        mockAircraft)
          \<and> length (mockRecommendations s') = 6
          \<and> length mockAircraft = 3)"
proof -
  obtain p where p: "fst (getAIRecommendations tailNumber status s) = RecommendationsOk p"
    "rp_totalCount p = length (rp_recommendations p)"
    "rp_pendingApprovals p
       = length (filter (\<lambda>r. rec_status r = ''PENDING'') (rp_recommendations p))"
    "falsy tailNumber \<and> falsy status \<longrightarrow>
       rp_recommendations p = mockRecommendations (snd (getAIRecommendations tailNumber status s))"
    using get_payload[of tailNumber status s] by blast
  define s' where "s' = snd (getAIRecommendations tailNumber status s)"
  have eq: "getAIRecommendations tailNumber status s = (RecommendationsOk p, s')"
    using p(1) by (simp add: s'_def prod_eq_iff)
  have ne: "mockRecommendations s' \<noteq> []"
    unfolding s'_def by (rule get_store_nonempty)
  have seeded: "mockRecommendations s = [] \<longrightarrow>
          map (\<lambda>r. (rec_aircraftId r, rec_maintenanceType r, rec_status r)) (mockRecommendations s')
            = concat (map (\<lambda>a. [(ac_id a, ''100_HOUR'', ''PENDING''), (ac_id a, ''ANNUAL'', ''PENDING'')])
                        mockAircraft)
          \<and> length (mockRecommendations s') = 6
          \<and> length mockAircraft = 3"
  proof
    assume "mockRecommendations s = []"
    then have "mockRecommendations s' = fst (baselineRecommendations mockAircraft (world s))"
      unfolding s'_def by (rule get_seeds)
    then show "map (\<lambda>r. (rec_aircraftId r, rec_maintenanceType r, rec_status r)) (mockRecommendations s')
            = concat (map (\<lambda>a. [(ac_id a, ''100_HOUR'', ''PENDING''), (ac_id a, ''ANNUAL'', ''PENDING'')])
                        mockAircraft)
          \<and> length (mockRecommendations s') = 6
          \<and> length mockAircraft = 3"
      by (simp add: baseline_mock) (simp add: mockAircraft_def)
  qed
  from eq p(2,3,4) ne seeded show ?thesis
    unfolding s'_def[symmetric] by auto
qed

lemma example_server_empty:
  "mockRecommendations example_server = [] \<and> mockActiveWorkflows example_server = []"
  by (simp add: example_server_def initial_server_def split_beta)

theorem getAIRecommendations_seeds_and_counts_witness:
  "\<exists>p s'. getAIRecommendations None None example_server = (RecommendationsOk p, s')
     \<and> rp_totalCount p = 6 \<and> rp_recommendations p \<noteq> []
     \<and> length (mockRecommendations s') = 6"
  using getAIRecommendations_seeds_and_counts[of None None example_server] example_server_empty
  by (auto simp: falsy_def)

section \<open>Properties of the workflow materializer\<close>

text \<open>
  C7 (as stated, refuted): two invocations of \<open>createWorkflowFromRecommendation\<close> with the
  same recommendation and index, the second after the first, return different records
  when \<open>Math.random()\<close> returns different numbers: here the progress counts differ.
\<close>

theorem createWorkflow_not_deterministic:
  "pr_tasksCompleted (wf_progress (fst
      (createWorkflowFromRecommendation example_recommendation 0 varying_env))) = 2
   \<and> pr_tasksCompleted (wf_progress (fst
      (createWorkflowFromRecommendation example_recommendation 0
         (snd (createWorkflowFromRecommendation example_recommendation 0 varying_env))))) = 6
   \<and> fst (createWorkflowFromRecommendation example_recommendation 0 varying_env)
      \<noteq> fst (createWorkflowFromRecommendation example_recommendation 0
              (snd (createWorkflowFromRecommendation example_recommendation 0 varying_env)))"
proof -
  have a: "pr_tasksCompleted (wf_progress (fst
      (createWorkflowFromRecommendation example_recommendation 0 varying_env))) = 2"
    by (simp add: createWorkflowFromRecommendation_def Let_def rnd_def varying_env_def
        example_env_def)
  have b: "pr_tasksCompleted (wf_progress (fst
      (createWorkflowFromRecommendation example_recommendation 0
         (snd (createWorkflowFromRecommendation example_recommendation 0 varying_env))))) = 6"
    by (simp add: createWorkflowFromRecommendation_def Let_def rnd_def varying_env_def
        example_env_def advance_def)
  from a b show ?thesis by force
qed

lemma workflow_fixed_fields:
  "wf_id (fst (createWorkflowFromRecommendation r index e)) = ''workflow-'' @ rec_id r"
  "wf_recommendationId (fst (createWorkflowFromRecommendation r index e)) = rec_id r"
  "wf_aircraftId (fst (createWorkflowFromRecommendation r index e)) = rec_aircraftId r"
  "wf_tailNumber (fst (createWorkflowFromRecommendation r index e)) = rec_tailNumber r"
  "wf_maintenanceType (fst (createWorkflowFromRecommendation r index e)) = rec_maintenanceType r"
  "wf_status (fst (createWorkflowFromRecommendation r index e))
     = workflow_statuses ! (index mod length workflow_statuses)"
  "pr_currentTask (wf_progress (fst (createWorkflowFromRecommendation r index e)))
     = getCurrentTask (workflow_statuses ! (index mod length workflow_statuses)) (rec_maintenanceType r)"
  "pr_nextMilestone (wf_progress (fst (createWorkflowFromRecommendation r index e)))
     = getNextMilestone (workflow_statuses ! (index mod length workflow_statuses))"
  "wf_assignments (fst (createWorkflowFromRecommendation r index e))
     = \<lparr>as_mechanic = [''John Smith'', ''Mike Wilson'', ''Sarah Rodriguez''] ! (index mod 3),
        as_inspector = (if workflow_statuses ! (index mod length workflow_statuses) = ''INSPECTION''
                        then Some ''David Chen'' else None),
        as_supervisor = ''Tom Anderson''\<rparr>"
  "rs_hangar (wf_resources (fst (createWorkflowFromRecommendation r index e)))
     = ''Hangar '' @ [''A'', ''B'', ''C''] ! (index mod 3) @ '' - Bay '' @ show_nat ((index mod 4) + 1)"
  "rs_equipment (wf_resources (fst (createWorkflowFromRecommendation r index e)))
     = getRequiredEquipment (rec_maintenanceType r)"
  by (simp_all add: createWorkflowFromRecommendation_def Let_def)

lemma workflow_same_draws:
  assumes "rec_id r1 = rec_id r2" and "rec_aircraftId r1 = rec_aircraftId r2"
    and "rec_tailNumber r1 = rec_tailNumber r2"
    and "rec_maintenanceType r1 = rec_maintenanceType r2"
    and "workflow_draws e1 = workflow_draws e2"
  shows "fst (createWorkflowFromRecommendation r1 index e1)
           = fst (createWorkflowFromRecommendation r2 index e2)"
  using assms
  by (simp add: createWorkflowFromRecommendation_def Let_def workflow_draws_def)

text \<open>
  C7 (amended): for two recommendations that agree on id, aircraft id, tail number and
  maintenance type, and the same index, the workflow's identifying fields, status,
  current task, next milestone, assignments, hangar and equipment are the same in every
  environment; the progress counts, the parts, the timeline and the notification fields
  are computed from \<open>Math.random()\<close> and \<open>Date.now()\<close>; if the two invocations read
  the same random numbers and clock values, then the whole records are identical. (The
  converse is not stated: different random numbers can give the same counts.)
\<close>

theorem createWorkflow_determinism:
  assumes "rec_id r1 = rec_id r2" and "rec_aircraftId r1 = rec_aircraftId r2"
    and "rec_tailNumber r1 = rec_tailNumber r2"
    and "rec_maintenanceType r1 = rec_maintenanceType r2"
  shows "wf_id (fst (createWorkflowFromRecommendation r1 index e1))
           = wf_id (fst (createWorkflowFromRecommendation r2 index e2))
    \<and> wf_recommendationId (fst (createWorkflowFromRecommendation r1 index e1))
           = wf_recommendationId (fst (createWorkflowFromRecommendation r2 index e2))
    \<and> wf_aircraftId (fst (createWorkflowFromRecommendation r1 index e1))
           = wf_aircraftId (fst (createWorkflowFromRecommendation r2 index e2))
    \<and> wf_tailNumber (fst (createWorkflowFromRecommendation r1 index e1))
           = wf_tailNumber (fst (createWorkflowFromRecommendation r2 index e2))
    \<and> wf_maintenanceType (fst (createWorkflowFromRecommendation r1 index e1))
           = wf_maintenanceType (fst (createWorkflowFromRecommendation r2 index e2))
    \<and> wf_status (fst (createWorkflowFromRecommendation r1 index e1))
           = wf_status (fst (createWorkflowFromRecommendation r2 index e2))
    \<and> pr_currentTask (wf_progress (fst (createWorkflowFromRecommendation r1 index e1)))
           = pr_currentTask (wf_progress (fst (createWorkflowFromRecommendation r2 index e2)))
    \<and> pr_nextMilestone (wf_progress (fst (createWorkflowFromRecommendation r1 index e1)))
           = pr_nextMilestone (wf_progress (fst (createWorkflowFromRecommendation r2 index e2)))
    \<and> wf_assignments (fst (createWorkflowFromRecommendation r1 index e1))
           = wf_assignments (fst (createWorkflowFromRecommendation r2 index e2))
    \<and> rs_hangar (wf_resources (fst (createWorkflowFromRecommendation r1 index e1)))
           = rs_hangar (wf_resources (fst (createWorkflowFromRecommendation r2 index e2)))
    \<and> rs_equipment (wf_resources (fst (createWorkflowFromRecommendation r1 index e1)))
           = rs_equipment (wf_resources (fst (createWorkflowFromRecommendation r2 index e2)))
    \<and> (workflow_draws e1 = workflow_draws e2 \<longrightarrow>
         fst (createWorkflowFromRecommendation r1 index e1)
           = fst (createWorkflowFromRecommendation r2 index e2))"
  using assms workflow_same_draws[of r1 r2 e1 e2 index]
  by (simp add: workflow_fixed_fields)

theorem createWorkflow_determinism_witness:
  "fst (createWorkflowFromRecommendation example_recommendation 3 example_env)
     = fst (createWorkflowFromRecommendation
              (example_recommendation\<lparr>rec_status := ''APPROVED'', rec_estimatedCost := 1\<rparr>) 3
              (example_env\<lparr>net_ix := 7\<rparr>))"
proof -
  have same: "workflow_draws example_env = workflow_draws (example_env\<lparr>net_ix := 7\<rparr>)"
    by (simp add: workflow_draws_def rnd_def now_def)
  have ids: "rec_id example_recommendation
      = rec_id (example_recommendation\<lparr>rec_status := ''APPROVED'', rec_estimatedCost := 1\<rparr>)"
    "rec_aircraftId example_recommendation
      = rec_aircraftId (example_recommendation\<lparr>rec_status := ''APPROVED'', rec_estimatedCost := 1\<rparr>)"
    "rec_tailNumber example_recommendation
      = rec_tailNumber (example_recommendation\<lparr>rec_status := ''APPROVED'', rec_estimatedCost := 1\<rparr>)"
    "rec_maintenanceType example_recommendation
      = rec_maintenanceType (example_recommendation\<lparr>rec_status := ''APPROVED'', rec_estimatedCost := 1\<rparr>)"
    by simp_all
  from createWorkflow_determinism[OF ids, of 3 example_env "example_env\<lparr>net_ix := 7\<rparr>"] same
  show ?thesis by blast
qed

section \<open>Properties of the approval gate\<close>

lemma find_first_None: "find_first p xs = None \<longleftrightarrow> (\<forall>x \<in> set xs. \<not> p x)"
  by (auto simp: find_first_def find_None_iff)

lemma find_first_split:
  "find_first p xs = Some r \<Longrightarrow>
   \<exists>pre post. xs = pre @ r # post \<and> (\<forall>x \<in> set pre. \<not> p x) \<and> p r
      \<and> update_first p f xs = pre @ f r # post"
proof (induction xs)
  case Nil
  then show ?case by (simp add: find_first_def)
next
  case (Cons x xs)
  show ?case
  proof (cases "p x")
    case True
    with Cons.prems have "x = r" by (simp add: find_first_def)
    with True show ?thesis by (intro exI[of _ "[]"] exI[of _ xs]) simp
  next
    case False
    with Cons.prems have "find_first p xs = Some r" by (simp add: find_first_def)
    from Cons.IH[OF this] obtain pre post where
      "xs = pre @ r # post" "\<forall>x \<in> set pre. \<not> p x" "p r" "update_first p f xs = pre @ f r # post"
      by blast
    with False show ?thesis by (intro exI[of _ "x # pre"] exI[of _ post]) simp
  qed
qed

text \<open>
  C2 (as stated, refuted): the empty string occurs as the id of no stored recommendation,
  yet approving it is answered with status 400 by the required-fields check, not with 404.
\<close>

theorem approve_empty_id_is_400:
  "[] \<notin> rec_id ` set (mockRecommendations pending_server)
   \<and> fst (approveRecommendation (approve_request []) pending_server)
      = JsonError 400 ''recommendationId and approvedBy are required''
   \<and> http_status (fst (approveRecommendation (approve_request []) pending_server)) \<noteq> 404"
  by (simp add: approveRecommendation_def approve_request_def falsy_def http_status_def
      pending_server_def example_recommendation_def baseline_100hour_def)

text \<open>
  C2 (amended): for every non-empty recommendation id that does not occur in the store,
  and every non-empty \<open>approvedBy\<close>, the approve handler returns the 404 error
  \<open>Recommendation not found\<close> and leaves the whole state unchanged: every stored
  recommendation, the workflow map, the audit trail and the environment.
\<close>

theorem approve_unknown_id:
  assumes "rid \<noteq> []" and "approvedBy \<noteq> []"
    and "rid \<notin> rec_id ` set (mockRecommendations s)"
  shows "approveRecommendation
           \<lparr>ab_recommendationId = Some rid, ab_approvedBy = Some approvedBy,
            ab_approvalNotes = notes\<rparr> s
         = (JsonError 404 ''Recommendation not found'', s)
       \<and> http_status (JsonError 404 ''Recommendation not found'') = 404"
proof -
  have "find_first (\<lambda>r. rec_id r = rid) (mockRecommendations s) = None"
    using assms(3) by (auto simp: find_first_None)
  with assms(1,2) show ?thesis
    by (simp add: approveRecommendation_def falsy_def http_status_def)
qed

theorem approve_unknown_id_witness:
  "approveRecommendation (approve_request ''rec-404'') pending_server
     = (JsonError 404 ''Recommendation not found'', pending_server)"
  using approve_unknown_id[of "''rec-404''" "''ops-manager''" pending_server None]
  by (simp add: approve_request_def pending_server_def example_recommendation_def
      baseline_100hour_def)

section \<open>Properties of the rejection handler\<close>

text \<open>
  C4 (as stated, refuted): a stored recommendation that shares its id with an earlier one
  is not the one the handler finds, and keeps its status; and a stored recommendation
  whose id is the empty string cannot be rejected, the request being answered with 400.
\<close>

theorem reject_misses_recommendation:
  "mockRecommendations duplicate_id_server ! 1 \<in> set (mockRecommendations duplicate_id_server)
   \<and> rec_id (mockRecommendations duplicate_id_server ! 1) = ''rec-1''
   \<and> http_status (fst (rejectRecommendation (reject_request ''rec-1'') duplicate_id_server)) = 200
   \<and> mockRecommendations (snd (rejectRecommendation (reject_request ''rec-1'') duplicate_id_server)) ! 1
       = mockRecommendations duplicate_id_server ! 1
   \<and> rec_status (mockRecommendations
         (snd (rejectRecommendation (reject_request ''rec-1'') duplicate_id_server)) ! 1) = ''PENDING''
   \<and> rec_id (mockRecommendations empty_id_server ! 0) = []
   \<and> rejectRecommendation (reject_request []) empty_id_server
       = (JsonError 400 ''recommendationId and rejectedBy are required'', empty_id_server)
   \<and> rec_status (mockRecommendations empty_id_server ! 0) = ''PENDING''"
  by (simp add: rejectRecommendation_def reject_request_def falsy_def http_status_def
      duplicate_id_server_def empty_id_server_def example_recommendation_def
      baseline_100hour_def find_first_def Let_def)

text \<open>
  C4 (amended): for every non-empty id, when \<open>r\<close> is the recommendation the store's
  lookup finds for it (the first one with that id), rejecting with that id and a
  non-empty \<open>rejectedBy\<close> answers with status 200, puts \<open>r\<close> with status REJECTED and all
  other fields as before in the place of \<open>r\<close>, leaves every other stored recommendation
  as it is, leaves the workflow map and the workflow object unchanged, and sends no
  email (no \<open>sendEmail\<close> call is recorded, no random number or transport reply is
  consumed).
\<close>

theorem reject_found:
  assumes "rid \<noteq> []" and "rejectedBy \<noteq> []"
    and "find_first (\<lambda>x. rec_id x = rid) (mockRecommendations s) = Some r"
  shows "\<exists>p s' pre post.
           rejectRecommendation
             \<lparr>rjb_recommendationId = Some rid, rjb_rejectedBy = Some rejectedBy,
              rjb_rejectionReason = reason\<rparr> s = (RejectOk p, s')
         \<and> http_status (RejectOk p) = 200
         \<and> rj_recommendation p = r\<lparr>rec_status := ''REJECTED''\<rparr>
         \<and> mockRecommendations s = pre @ r # post
         \<and> mockRecommendations s' = pre @ r\<lparr>rec_status := ''REJECTED''\<rparr> # post
         \<and> mockActiveWorkflows s' = mockActiveWorkflows s
         \<and> agenticWorkflow s' = agenticWorkflow s
         \<and> send_calls (world s') = send_calls (world s)
         \<and> rng_ix (world s') = rng_ix (world s)
         \<and> net_ix (world s') = net_ix (world s)"
proof -
  from find_first_split[OF assms(3), of "\<lambda>x. x\<lparr>rec_status := ''REJECTED''\<rparr>"]
  obtain pre post where
    split: "mockRecommendations s = pre @ r # post"
      "update_first (\<lambda>x. rec_id x = rid) (\<lambda>x. x\<lparr>rec_status := ''REJECTED''\<rparr>) (mockRecommendations s)
         = pre @ r\<lparr>rec_status := ''REJECTED''\<rparr> # post"
    by blast
  have run: "rejectRecommendation
             \<lparr>rjb_recommendationId = Some rid, rjb_rejectedBy = Some rejectedBy,
              rjb_rejectionReason = reason\<rparr> s
        = (RejectOk \<lparr>rj_success = True,
                      rj_recommendation = r\<lparr>rec_status := ''REJECTED''\<rparr>,
                      rj_rejectionReason = reason,
                      rj_message = ''Recommendation rejected successfully'',
                      rj_timestamp = int (now (world s) 0)\<rparr>,
           s\<lparr>mockRecommendations := pre @ r\<lparr>rec_status := ''REJECTED''\<rparr> # post,
             world := advance 1 0 (world s)\<rparr>)"
    using assms split(2) by (simp add: rejectRecommendation_def falsy_def Let_def)
  show ?thesis
    unfolding run using split(1)
    by (intro exI[of _ "\<lparr>rj_success = True,
                      rj_recommendation = r\<lparr>rec_status := ''REJECTED''\<rparr>,
                      rj_rejectionReason = reason,
                      rj_message = ''Recommendation rejected successfully'',
                      rj_timestamp = int (now (world s) 0)\<rparr>"]
        exI[of _ "s\<lparr>mockRecommendations := pre @ r\<lparr>rec_status := ''REJECTED''\<rparr> # post,
             world := advance 1 0 (world s)\<rparr>"] exI[of _ pre] exI[of _ post])
      (simp add: http_status_def advance_def)
qed

theorem reject_found_witness:
  "\<exists>p s'. rejectRecommendation (reject_request ''baseline-n123ab-100hour'') pending_server
             = (RejectOk p, s')
     \<and> rec_status (rj_recommendation p) = ''REJECTED''
     \<and> map rec_status (mockRecommendations s') = [''REJECTED'']
     \<and> mockActiveWorkflows s' = mockActiveWorkflows pending_server
     \<and> send_calls (world s') = send_calls (world pending_server)"
proof -
  have found: "find_first (\<lambda>x. rec_id x = ''baseline-n123ab-100hour'')
                 (mockRecommendations pending_server) = Some example_recommendation"
    by (simp add: pending_server_def example_recommendation_def baseline_100hour_def
        find_first_def mockAircraft_def)
  have store: "mockRecommendations pending_server = [example_recommendation]"
    by (simp add: pending_server_def)
  from reject_found[OF _ _ found, of "''ops-manager''" "Some ''not needed''"]
  obtain p s' pre post where
    r: "rejectRecommendation (reject_request ''baseline-n123ab-100hour'') pending_server
          = (RejectOk p, s')"
      "rj_recommendation p = example_recommendation\<lparr>rec_status := ''REJECTED''\<rparr>"
      "mockRecommendations pending_server = pre @ example_recommendation # post"
      "mockRecommendations s' = pre @ example_recommendation\<lparr>rec_status := ''REJECTED''\<rparr> # post"
      "mockActiveWorkflows s' = mockActiveWorkflows pending_server"
      "send_calls (world s') = send_calls (world pending_server)"
    unfolding reject_request_def by auto
  from r(3) store have "pre = [] \<and> post = []"
    by (cases pre) simp_all
  with r show ?thesis by auto
qed

section \<open>Properties of the approval handler\<close>

lemma approve_run:
  assumes "rid \<noteq> []" and "approvedBy \<noteq> []"
    and "find_first (\<lambda>x. rec_id x = rid) (mockRecommendations s) = Some r"
    and "find_first (\<lambda>a. ac_id a = rec_aircraftId r) mockAircraft = Some aircraft"
  shows "mockRecommendations (snd (approveRecommendation
            \<lparr>ab_recommendationId = Some rid, ab_approvedBy = Some approvedBy,
             ab_approvalNotes = approvalNotes\<rparr> s))
         = update_first (\<lambda>x. rec_id x = rid)
             (\<lambda>x. x\<lparr>rec_status := ''APPROVED'', rec_approvedBy := Some approvedBy,
                     rec_approvedAt := Some (int (now (world s) 0))\<rparr>) (mockRecommendations s)"
    and "mockActiveWorkflows (snd (approveRecommendation
            \<lparr>ab_recommendationId = Some rid, ab_approvedBy = Some approvedBy,
             ab_approvalNotes = approvalNotes\<rparr> s))
         = AList.update (''workflow-'' @ rid)
             (fst (createWorkflowFromRecommendation
                (r\<lparr>rec_status := ''APPROVED'', rec_approvedBy := Some approvedBy,
                   rec_approvedAt := Some (int (now (world s) 0))\<rparr>)
                (length (mockActiveWorkflows s)) (advance 1 0 (world s))))
             (mockActiveWorkflows s)"
    and "\<exists>p. fst (approveRecommendation
            \<lparr>ab_recommendationId = Some rid, ab_approvedBy = Some approvedBy,
             ab_approvalNotes = approvalNotes\<rparr> s) = ApproveOk p
          \<and> ap_recommendation p
              = r\<lparr>rec_status := ''APPROVED'', rec_approvedBy := Some approvedBy,
                  rec_approvedAt := Some (int (now (world s) 0))\<rparr>
          \<and> ap_activeWorkflow p
              = fst (createWorkflowFromRecommendation
                  (r\<lparr>rec_status := ''APPROVED'', rec_approvedBy := Some approvedBy,
                     rec_approvedAt := Some (int (now (world s) 0))\<rparr>)
                  (length (mockActiveWorkflows s)) (advance 1 0 (world s)))"
  using assms by (simp_all add: approveRecommendation_def falsy_def Let_def split_beta)

lemma update_new_key: "k \<notin> fst ` set al \<Longrightarrow> AList.update k v al = al @ [(k, v)]"
  by (induction al) auto

lemma find_aircraft:
  "rec_aircraftId r \<in> ac_id ` set mockAircraft \<Longrightarrow>
   \<exists>aircraft. find_first (\<lambda>a. ac_id a = rec_aircraftId r) mockAircraft = Some aircraft"
  using find_first_None[of "\<lambda>a. ac_id a = rec_aircraftId r" mockAircraft] by force

text \<open>
  C1 (as stated, refuted): a PENDING recommendation whose aircraft id is not one of the mock
  aircraft is answered with 404 \<open>Aircraft not found\<close> and stays PENDING, with no workflow
  created; when the key \<open>workflow-<id>\<close> is already in the workflow map, the approval
  replaces that entry and adds none; a PENDING recommendation stored behind another one
  with the same id stays PENDING; and one stored with an empty id is answered with 400.
\<close>

theorem approve_pending_fails:
  "rec_status (mockRecommendations unknown_aircraft_server ! 0) = ''PENDING''
   \<and> rec_id (mockRecommendations unknown_aircraft_server ! 0) = ''rec-1''
   \<and> approveRecommendation (approve_request ''rec-1'') unknown_aircraft_server
       = (JsonError 404 ''Aircraft not found'', unknown_aircraft_server)
   \<and> mockActiveWorkflows unknown_aircraft_server = []
   \<and> rec_status (mockRecommendations stale_workflow_server ! 0) = ''PENDING''
   \<and> rec_id (mockRecommendations stale_workflow_server ! 0) = ''baseline-n123ab-100hour''
   \<and> length (mockActiveWorkflows stale_workflow_server) = 1
   \<and> length (mockActiveWorkflows (snd (approveRecommendation
         (approve_request ''baseline-n123ab-100hour'') stale_workflow_server))) = 1
   \<and> rec_status (mockRecommendations duplicate_id_server ! 1) = ''PENDING''
   \<and> rec_id (mockRecommendations duplicate_id_server ! 1) = ''rec-1''
   \<and> rec_status (mockRecommendations (snd (approveRecommendation
         (approve_request ''rec-1'') duplicate_id_server)) ! 1) = ''PENDING''
   \<and> rec_status (mockRecommendations empty_id_server ! 0) = ''PENDING''
   \<and> rec_id (mockRecommendations empty_id_server ! 0) = []
   \<and> approveRecommendation (approve_request []) empty_id_server
       = (JsonError 400 ''recommendationId and approvedBy are required'', empty_id_server)"
proof -
  have unknown: "approveRecommendation (approve_request ''rec-1'') unknown_aircraft_server
       = (JsonError 404 ''Aircraft not found'', unknown_aircraft_server)"
    by (simp add: approveRecommendation_def approve_request_def falsy_def find_first_def
        unknown_aircraft_server_def mockAircraft_def Let_def)
  have a0: "find_first (\<lambda>a. ac_id a = rec_aircraftId example_recommendation) mockAircraft
              = Some (mockAircraft ! 0)"
    by (simp add: example_recommendation_def baseline_100hour_def find_first_def mockAircraft_def)
  have stale_found: "find_first (\<lambda>x. rec_id x = ''baseline-n123ab-100hour'')
      (mockRecommendations stale_workflow_server) = Some example_recommendation"
    by (simp add: stale_workflow_server_def pending_server_def example_recommendation_def
        baseline_100hour_def find_first_def mockAircraft_def)
  have stale: "length (mockActiveWorkflows (snd (approveRecommendation
         (approve_request ''baseline-n123ab-100hour'') stale_workflow_server))) = 1"
    unfolding approve_request_def
    by (simp add: approve_run(2)[OF _ _ stale_found a0]) (simp add: stale_workflow_server_def)
  have a1: "find_first (\<lambda>a. ac_id a = rec_aircraftId (example_recommendation\<lparr>rec_id := ''rec-1''\<rparr>))
              mockAircraft = Some (mockAircraft ! 0)"
    by (simp add: example_recommendation_def baseline_100hour_def find_first_def mockAircraft_def)
  have dup_found: "find_first (\<lambda>x. rec_id x = ''rec-1'') (mockRecommendations duplicate_id_server)
      = Some (example_recommendation\<lparr>rec_id := ''rec-1''\<rparr>)"
    by (simp add: duplicate_id_server_def find_first_def)
  have dup: "rec_status (mockRecommendations (snd (approveRecommendation
         (approve_request ''rec-1'') duplicate_id_server)) ! 1) = ''PENDING''"
    unfolding approve_request_def
    by (simp add: approve_run(1)[OF _ _ dup_found a1])
       (simp add: duplicate_id_server_def example_recommendation_def)
  have empty: "approveRecommendation (approve_request []) empty_id_server
       = (JsonError 400 ''recommendationId and approvedBy are required'', empty_id_server)"
    by (simp add: approveRecommendation_def approve_request_def falsy_def)
  show ?thesis
    unfolding unknown stale dup empty
    by (simp add: unknown_aircraft_server_def stale_workflow_server_def pending_server_def
        duplicate_id_server_def empty_id_server_def example_server_empty
        example_recommendation_def baseline_100hour_def mockAircraft_def)
qed

text \<open>
  C1 (amended): for every non-empty id, when \<open>r\<close> is the recommendation the store's lookup
  finds for it and the aircraft id of \<open>r\<close> is one of the mock aircraft, approving with that
  id and a non-empty \<open>approvedBy\<close> answers with status 200, puts \<open>r\<close> with status
  APPROVED, \<open>approvedBy\<close> and \<open>approvedAt\<close> set in the place of \<open>r\<close>, and leaves the
  workflow map with the new workflow under the key \<open>workflow-<id>\<close>, whose
  \<open>recommendationId\<close> is the id, and with every other key as before; when that key was not
  in the map, the map has grown by exactly this one entry.
\<close>

theorem approve_found:
  assumes "rid \<noteq> []" and "approvedBy \<noteq> []"
    and "find_first (\<lambda>x. rec_id x = rid) (mockRecommendations s) = Some r"
    and "rec_aircraftId r \<in> ac_id ` set mockAircraft"
  shows "\<exists>p s' pre post.
           approveRecommendation
             \<lparr>ab_recommendationId = Some rid, ab_approvedBy = Some approvedBy,
              ab_approvalNotes = approvalNotes\<rparr> s = (ApproveOk p, s')
         \<and> http_status (ApproveOk p) = 200
         \<and> rec_id r = rid
         \<and> ap_recommendation p
             = r\<lparr>rec_status := ''APPROVED'', rec_approvedBy := Some approvedBy,
                 rec_approvedAt := Some (int (now (world s) 0))\<rparr>
         \<and> mockRecommendations s = pre @ r # post
         \<and> mockRecommendations s' = pre @ ap_recommendation p # post
         \<and> map_of (mockActiveWorkflows s') (''workflow-'' @ rid) = Some (ap_activeWorkflow p)
         \<and> wf_id (ap_activeWorkflow p) = ''workflow-'' @ rid
         \<and> wf_recommendationId (ap_activeWorkflow p) = rid
         \<and> (\<forall>k. k \<noteq> ''workflow-'' @ rid \<longrightarrow>
               map_of (mockActiveWorkflows s') k = map_of (mockActiveWorkflows s) k)
         \<and> (''workflow-'' @ rid \<notin> fst ` set (mockActiveWorkflows s) \<longrightarrow>
               mockActiveWorkflows s'
                 = mockActiveWorkflows s @ [(''workflow-'' @ rid, ap_activeWorkflow p)])"
proof -
  let ?body = "\<lparr>ab_recommendationId = Some rid, ab_approvedBy = Some approvedBy,
                 ab_approvalNotes = approvalNotes\<rparr>"
  let ?approve = "\<lambda>x. x\<lparr>rec_status := ''APPROVED'', rec_approvedBy := Some approvedBy,
                          rec_approvedAt := Some (int (now (world s) 0))\<rparr>"
  let ?key = "''workflow-'' @ rid"
  obtain aircraft where
    ac: "find_first (\<lambda>a. ac_id a = rec_aircraftId r) mockAircraft = Some aircraft"
    using find_aircraft[OF assms(4)] by blast
  from find_first_split[OF assms(3), of ?approve] obtain pre post where
    split: "mockRecommendations s = pre @ r # post" "rec_id r = rid"
      "update_first (\<lambda>x. rec_id x = rid) ?approve (mockRecommendations s) = pre @ ?approve r # post"
    by blast
  define s' where "s' = snd (approveRecommendation ?body s)"
  from approve_run(3)[OF assms(1,2,3) ac, where approvalNotes=approvalNotes] obtain p where
    p: "fst (approveRecommendation ?body s) = ApproveOk p"
      "ap_recommendation p = ?approve r"
      "ap_activeWorkflow p
         = fst (createWorkflowFromRecommendation (?approve r)
                  (length (mockActiveWorkflows s)) (advance 1 0 (world s)))"
    by blast
  have res: "approveRecommendation ?body s = (ApproveOk p, s')"
    using p(1) by (simp add: s'_def prod_eq_iff)
  have recs: "mockRecommendations s' = pre @ ap_recommendation p # post"
    unfolding s'_def approve_run(1)[OF assms(1,2,3) ac] split(3) p(2) ..
  have wfs: "mockActiveWorkflows s' = AList.update ?key (ap_activeWorkflow p) (mockActiveWorkflows s)"
    unfolding s'_def approve_run(2)[OF assms(1,2,3) ac] p(3) ..
  have ids: "wf_id (ap_activeWorkflow p) = ?key" "wf_recommendationId (ap_activeWorkflow p) = rid"
    unfolding p(3) by (simp_all add: workflow_fixed_fields split(2))
  have look: "map_of (mockActiveWorkflows s') ?key = Some (ap_activeWorkflow p)"
    unfolding wfs by (simp add: update_conv')
  have other: "\<forall>k. k \<noteq> ?key \<longrightarrow>
      map_of (mockActiveWorkflows s') k = map_of (mockActiveWorkflows s) k"
    unfolding wfs by (simp add: update_conv')
  have fresh: "?key \<notin> fst ` set (mockActiveWorkflows s) \<longrightarrow>
      mockActiveWorkflows s' = mockActiveWorkflows s @ [(?key, ap_activeWorkflow p)]"
    unfolding wfs by (simp add: update_new_key)
  have st: "http_status (ApproveOk p) = 200"
    by (simp add: http_status_def)
  from res st split(2) p(2) split(1) recs look ids other fresh show ?thesis
    by blast
qed

theorem approve_found_witness:
  "\<exists>p s'. approveRecommendation (approve_request ''baseline-n123ab-100hour'') pending_server
             = (ApproveOk p, s')
     \<and> rec_status (ap_recommendation p) = ''APPROVED''
     \<and> rec_approvedBy (ap_recommendation p) = Some ''ops-manager''
     \<and> mockRecommendations s' = [ap_recommendation p]
     \<and> mockActiveWorkflows s' = [(''workflow-baseline-n123ab-100hour'', ap_activeWorkflow p)]
     \<and> wf_recommendationId (ap_activeWorkflow p) = ''baseline-n123ab-100hour''"
proof -
  have found: "find_first (\<lambda>x. rec_id x = ''baseline-n123ab-100hour'')
                 (mockRecommendations pending_server) = Some example_recommendation"
    by (simp add: pending_server_def example_recommendation_def baseline_100hour_def
        find_first_def mockAircraft_def)
  have known: "rec_aircraftId example_recommendation \<in> ac_id ` set mockAircraft"
    by (simp add: example_recommendation_def mockAircraft_def)
  have store: "mockRecommendations pending_server = [example_recommendation]"
    and none: "mockActiveWorkflows pending_server = []"
    by (simp_all add: pending_server_def example_server_empty)
  have id_ok: "''baseline-n123ab-100hour'' \<noteq> []" and by_ok: "''ops-manager'' \<noteq> []"
    by simp_all
  from approve_found[OF id_ok by_ok found known, where approvalNotes = None]
  obtain p s' pre post where
    run0: "approveRecommendation
             \<lparr>ab_recommendationId = Some ''baseline-n123ab-100hour'',
              ab_approvedBy = Some ''ops-manager'', ab_approvalNotes = None\<rparr> pending_server
            = (ApproveOk p, s')"
    and approved: "ap_recommendation p
         = example_recommendation\<lparr>rec_status := ''APPROVED'', rec_approvedBy := Some ''ops-manager'',
             rec_approvedAt := Some (int (now (world pending_server) 0))\<rparr>"
    and before: "mockRecommendations pending_server = pre @ example_recommendation # post"
    and after: "mockRecommendations s' = pre @ ap_recommendation p # post"
    and rid: "wf_recommendationId (ap_activeWorkflow p) = ''baseline-n123ab-100hour''"
    and fresh: "''workflow-'' @ ''baseline-n123ab-100hour''
                  \<notin> fst ` set (mockActiveWorkflows pending_server) \<longrightarrow>
         mockActiveWorkflows s' = mockActiveWorkflows pending_server
            @ [(''workflow-'' @ ''baseline-n123ab-100hour'', ap_activeWorkflow p)]"
    by (elim exE conjE) (rule that)
  have run: "approveRecommendation (approve_request ''baseline-n123ab-100hour'') pending_server
            = (ApproveOk p, s')"
    using run0 by (simp add: approve_request_def)
  from before store have ends: "pre = []" "post = []"
    by (cases pre; simp)+
  have a: "mockRecommendations s' = [ap_recommendation p]"
    using after ends by simp
  have b: "mockActiveWorkflows s' = [(''workflow-baseline-n123ab-100hour'', ap_activeWorkflow p)]"
    using fresh none by simp
  have c: "rec_status (ap_recommendation p) = ''APPROVED''"
    "rec_approvedBy (ap_recommendation p) = Some ''ops-manager''"
    unfolding approved by simp_all
  from run c a b rid show ?thesis by blast
qed

section \<open>Properties of message ids\<close>

declare show_nat.simps [simp del]

lemma digit_char_inj: "a < 10 \<Longrightarrow> b < 10 \<Longrightarrow> digit_char a = digit_char b \<Longrightarrow> a = b"
proof -
  assume ab: "a < 10" "b < 10" and eq: "digit_char a = digit_char b"
  have d: "distinct ''0123456789''" by simp
  from ab eq have "''0123456789'' ! a = ''0123456789'' ! b"
    by (simp add: digit_char_def)
  with nth_eq_iff_index_eq[OF d, of a b] ab show "a = b" by simp
qed

lemma digit_char_digit: "digit_char d \<in> set ''0123456789''"
proof -
  have "d mod 10 < length ''0123456789''" by simp
  then show ?thesis unfolding digit_char_def by (rule nth_mem)
qed

lemma show_nat_nonempty: "show_nat n \<noteq> []"
  by (subst show_nat.simps) simp

lemma show_nat_digits: "c \<in> set (show_nat n) \<Longrightarrow> c \<in> set ''0123456789''"
proof (induction n rule: show_nat.induct)
  case (1 n)
  show ?case
  proof (cases "n < 10")
    case True
    with "1.prems" have "c = digit_char n" by (subst (asm) show_nat.simps) simp
    then show ?thesis using digit_char_digit by simp
  next
    case False
    with "1.prems" have "c \<in> set (show_nat (n div 10)) \<or> c = digit_char (n mod 10)"
      by (subst (asm) show_nat.simps) auto
    with "1.IH"[OF False] digit_char_digit show ?thesis by blast
  qed
qed

lemma show_nat_inj: "show_nat m = show_nat n \<Longrightarrow> m = n"
proof (induction m arbitrary: n rule: show_nat.induct)
  case (1 m)
  show ?case
  proof (cases "m < 10")
    case m: True
    show ?thesis
    proof (cases "n < 10")
      case True
      with m "1.prems" have "digit_char m = digit_char n"
        by (subst (asm) show_nat.simps, subst (asm) (2) show_nat.simps) simp
      with m True show ?thesis by (rule digit_char_inj)
    next
      case False
      with m "1.prems" have "[digit_char m] = show_nat (n div 10) @ [digit_char (n mod 10)]"
        by (subst (asm) show_nat.simps, subst (asm) (2) show_nat.simps) simp
      with show_nat_nonempty[of "n div 10"] show ?thesis by simp
    qed
  next
    case m: False
    show ?thesis
    proof (cases "n < 10")
      case True
      with m "1.prems" have "show_nat (m div 10) @ [digit_char (m mod 10)] = [digit_char n]"
        by (subst (asm) show_nat.simps, subst (asm) (2) show_nat.simps) simp
      with show_nat_nonempty[of "m div 10"] show ?thesis by simp
    next
      case False
      with m "1.prems" have
        "show_nat (m div 10) @ [digit_char (m mod 10)] = show_nat (n div 10) @ [digit_char (n mod 10)]"
        by (subst (asm) show_nat.simps, subst (asm) (2) show_nat.simps) simp
      then have a: "show_nat (m div 10) = show_nat (n div 10)"
        and b: "digit_char (m mod 10) = digit_char (n mod 10)" by simp_all
      from "1.IH"[OF m a] have "m div 10 = n div 10" .
      moreover from b have "m mod 10 = n mod 10" by (intro digit_char_inj) simp_all
      ultimately show ?thesis by (metis div_mult_mod_eq)
    qed
  qed
qed

lemma split_at_dash:
  "CHR ''-'' \<notin> set a \<Longrightarrow> CHR ''-'' \<notin> set b \<Longrightarrow> a @ CHR ''-'' # x = b @ CHR ''-'' # y
   \<Longrightarrow> a = b \<and> x = y"
proof (induction a arbitrary: b)
  case Nil
  then show ?case by (cases b) auto
next
  case (Cons c a)
  then show ?case by (cases b) auto
qed

lemma make_message_id_inj:
  "make_message_id t1 suffix1 = make_message_id t2 suffix2 \<longleftrightarrow> t1 = t2 \<and> suffix1 = suffix2"
proof
  assume "make_message_id t1 suffix1 = make_message_id t2 suffix2"
  then have eq: "show_nat t1 @ CHR ''-'' # suffix1 = show_nat t2 @ CHR ''-'' # suffix2"
    by (simp add: make_message_id_def)
  have "CHR ''-'' \<notin> set (show_nat t)" for t
    using show_nat_digits[of "CHR ''-''" t] by auto
  from split_at_dash[OF this this eq] show "t1 = t2 \<and> suffix1 = suffix2"
    by (auto dest: show_nat_inj)
next
  assume "t1 = t2 \<and> suffix1 = suffix2"
  then show "make_message_id t1 suffix1 = make_message_id t2 suffix2"
    by simp
qed

lemma random_suffix_advance [simp]:
  "random_suffix (advance a b e) r = random_suffix e r"
  "random_suffix (e\<lparr>send_calls := x\<rparr>) r = random_suffix e r"
  by (simp_all add: random_suffix_def advance_def)

lemma simulated_send:
  "sc_provider (sv_smtpConfig service) = Simulation \<Longrightarrow>
   fst (sendEmail service recipient content emailData e)
     = (if rnd e 2 < 0.05
        then \<lparr>er_success = False, er_messageId = None, er_error = Some ''SMTP connection timeout''\<rparr>
        else \<lparr>er_success = True,
              er_messageId = Some (make_message_id (now e 0) (random_suffix e (rnd e 0))),
              er_error = None\<rparr>)"
  by (simp add: sendEmail_def sendSimulatedEmail_def Let_def rnd_def advance_def)

lemma readings_send_calls [simp]:
  "now (e\<lparr>send_calls := x\<rparr>) k = now e k" "rnd (e\<lparr>send_calls := x\<rparr>) k = rnd e k"
  by (simp_all add: now_def rnd_def)

lemma simulated_send_env:
  "sc_provider (sv_smtpConfig service) = Simulation \<Longrightarrow>
   snd (sendEmail service recipient content emailData e)
     = (advance 1 3 e)\<lparr>send_calls := send_calls e
          @ [(rc_email recipient, make_message_id (now e 0) (random_suffix e (rnd e 0)))]\<rparr>"
  by (simp add: sendEmail_def sendSimulatedEmail_def Let_def advance_def)

lemma simulation_service_provider: "sc_provider (sv_smtpConfig simulation_service) = Simulation"
  by (simp add: simulation_service_def newMaintenanceEmailService_def getEmailConfig_def
      str_or_def falsy_def simulation_config_def)

lemma example_readings:
  "now example_env k = 1700000000000 + 1000 * k" "rnd example_env k = 1 / 2"
  "now frozen_env k = 1700000000000" "rnd frozen_env k = 1 / 2"
  by (simp_all add: now_def rnd_def example_env_def frozen_env_def)

lemma random_suffix_half:
  "random_suffix example_env (1 / 2) = ''i''" "random_suffix frozen_env (1 / 2) = ''i''"
  by (simp_all add: random_suffix_def substr_2_9_def example_env_def frozen_env_def)

lemma show_nat_example: "show_nat 1700000000000 = ''1700000000000''"
  by (simp add: show_nat.simps digit_char_def)

lemma example_message_id: "make_message_id 1700000000000 ''i'' = ''msg-1700000000000-i''"
  by (simp add: make_message_id_def show_nat_example)

text \<open>
  C8 (as stated, refuted): in simulation mode, two successive successful sends to the same
  recipient return the same message id when the clock reads the same millisecond and
  \<open>Math.random()\<close> returns the same number for both.
\<close>

theorem simulation_ids_can_repeat:
  "sc_provider (sv_smtpConfig simulation_service) = Simulation
   \<and> fst (sendEmail simulation_service example_recipient example_content example_email_data
            frozen_env)
       = \<lparr>er_success = True, er_messageId = Some ''msg-1700000000000-i'', er_error = None\<rparr>
   \<and> fst (sendEmail simulation_service example_recipient example_content example_email_data
            (snd (sendEmail simulation_service example_recipient example_content
                    example_email_data frozen_env)))
       = \<lparr>er_success = True, er_messageId = Some ''msg-1700000000000-i'', er_error = None\<rparr>"
  by (simp add: simulation_service_provider simulated_send[OF simulation_service_provider]
      simulated_send_env[OF simulation_service_provider] example_readings random_suffix_half
      example_message_id)

text \<open>
  C8 (amended): in simulation mode the message id of a successful send is \<open>msg-\<close>, the
  value of \<open>Date.now()\<close>, \<open>-\<close>, and \<open>Math.random().toString(36).substr(2, 9)\<close>; the ids
  of two successful sends, to the same or to different recipients, are equal exactly
  when the two invocations read the same clock value and the suffixes printed for their
  random numbers are equal. So two sends that read different clock values, or whose
  random numbers print different suffixes, return different message ids.
\<close>

theorem simulation_message_ids:
  assumes "sc_provider (sv_smtpConfig service) = Simulation"
    and "er_success (fst (sendEmail service recipient1 content1 data1 e1))"
    and "er_success (fst (sendEmail service recipient2 content2 data2 e2))"
  shows "er_messageId (fst (sendEmail service recipient1 content1 data1 e1))
           = Some (''msg-'' @ show_nat (now e1 0) @ ''-'' @ substr_2_9 (radix36 e1 (rnd e1 0)))
       \<and> er_messageId (fst (sendEmail service recipient2 content2 data2 e2))
           = Some (''msg-'' @ show_nat (now e2 0) @ ''-'' @ substr_2_9 (radix36 e2 (rnd e2 0)))
       \<and> ((er_messageId (fst (sendEmail service recipient1 content1 data1 e1))
             = er_messageId (fst (sendEmail service recipient2 content2 data2 e2)))
            = (now e1 0 = now e2 0
               \<and> substr_2_9 (radix36 e1 (rnd e1 0)) = substr_2_9 (radix36 e2 (rnd e2 0))))"
proof -
  from assms(2) have a: "fst (sendEmail service recipient1 content1 data1 e1)
      = \<lparr>er_success = True,
         er_messageId = Some (make_message_id (now e1 0) (random_suffix e1 (rnd e1 0))),
         er_error = None\<rparr>"
    unfolding simulated_send[OF assms(1)] by (simp split: if_splits)
  from assms(3) have b: "fst (sendEmail service recipient2 content2 data2 e2)
      = \<lparr>er_success = True,
         er_messageId = Some (make_message_id (now e2 0) (random_suffix e2 (rnd e2 0))),
         er_error = None\<rparr>"
    unfolding simulated_send[OF assms(1)] by (simp split: if_splits)
  have c: "(make_message_id (now e1 0) (random_suffix e1 (rnd e1 0))
            = make_message_id (now e2 0) (random_suffix e2 (rnd e2 0)))
        = (now e1 0 = now e2 0 \<and> random_suffix e1 (rnd e1 0) = random_suffix e2 (rnd e2 0))"
    by (rule make_message_id_inj)
  show ?thesis
    unfolding a b using c by (simp add: make_message_id_def random_suffix_def)
qed

theorem simulation_message_ids_witness:
  "er_success (fst (sendEmail simulation_service example_recipient example_content
                      example_email_data example_env))
   \<and> er_success (fst (sendEmail simulation_service example_recipient
                      example_content example_email_data
                      (snd (sendEmail simulation_service example_recipient example_content
                              example_email_data example_env))))
   \<and> er_messageId (fst (sendEmail simulation_service example_recipient example_content
                      example_email_data example_env))
     \<noteq> er_messageId (fst (sendEmail simulation_service example_recipient
                      example_content example_email_data
                      (snd (sendEmail simulation_service example_recipient example_content
                              example_email_data example_env))))"
proof -
  let ?e2 = "snd (sendEmail simulation_service example_recipient example_content
                    example_email_data example_env)"
  let ?r2 = "example_recipient"
  have s1: "er_success (fst (sendEmail simulation_service example_recipient example_content
                      example_email_data example_env))"
    by (simp add: simulated_send[OF simulation_service_provider] example_readings)
  have s2: "er_success (fst (sendEmail simulation_service ?r2 example_content
                      example_email_data ?e2))"
    by (simp add: simulated_send[OF simulation_service_provider]
        simulated_send_env[OF simulation_service_provider] example_readings)
  have clocks: "now example_env 0 \<noteq> now ?e2 0"
    by (simp add: simulated_send_env[OF simulation_service_provider] example_readings)
  from simulation_message_ids[OF simulation_service_provider s1 s2] clocks s1 s2
  show ?thesis by blast
qed

section \<open>Properties of the agentic workflow\<close>

lemma steps_return:
  "\<exists>v. createTaskAssignments recommendationId e = Inr v"
  "\<exists>v. sendNotifications assignments e = Inr v"
  "\<exists>v. createCalendarEvent recommendationId e = Inr v"
  "\<exists>v. bookResources recommendationId e = Inr v"
  "\<exists>v. createWorkOrder recommendationId approvedBy e = Inr v"
  "\<exists>v. createComplianceLogs recommendationId e = Inr v"
  "\<exists>v. scheduleReminders recommendationId this = Inr v"
  by (simp_all add: createTaskAssignments_def sendNotifications_def createCalendarEvent_def
      bookResources_def createWorkOrder_def createComplianceLogs_def scheduleReminders_def
      Let_def)

lemma sequence_completes:
  "\<exists>result st'. executeAutomatedSequence recommendationId approvedBy st = (Inr result, st')
     \<and> sq_actionsCompleted result = 5"
proof -
  obtain this e where st: "st = (this, e)" by (cases st)
  obtain a e1 where s1: "createTaskAssignments recommendationId (advance (Suc 0) 0 e) = Inr (a, e1)"
    using steps_return(1) by (metis surj_pair)
  obtain n e2 where s2: "sendNotifications a e1 = Inr (n, e2)"
    using steps_return(2) by (metis surj_pair)
  obtain c e3 where s3: "createCalendarEvent recommendationId e2 = Inr (c, e3)"
    using steps_return(3) by (metis surj_pair)
  obtain b e4 where s4: "bookResources recommendationId e3 = Inr (b, e4)"
    using steps_return(4) by (metis surj_pair)
  obtain w e5 where s5: "createWorkOrder recommendationId approvedBy e4 = Inr (w, e5)"
    using steps_return(5) by (metis surj_pair)
  obtain l e6 where s6: "createComplianceLogs recommendationId e5 = Inr (l, e6)"
    using steps_return(6) by (metis surj_pair)
  obtain this' where s7: "scheduleReminders recommendationId this = Inr this'"
    using steps_return(7) by blast
  show ?thesis
    unfolding st executeAutomatedSequence_def
    by (simp add: Let_def s1 s2 s3 s4 s5 s6 s7)
qed

lemma show_nat_5: "show_nat 5 = ''5''"
  by (simp add: show_nat.simps digit_char_def)

text \<open>
  C9: for every recommendation id, approver, notes and state of the workflow object,
  \<open>AgenticMaintenanceWorkflow.approveRecommendation\<close> returns success: every step of
  \<open>executeAutomatedSequence\<close> returns a value, the sequence completes with five actions,
  the failure branch is not taken, and the message reports 5 automated actions.
\<close>

theorem agentic_approve_succeeds:
  "ar_success (fst (agentic_approveRecommendation recommendationId approvedBy approvalNotes st))
   \<and> ar_message (fst (agentic_approveRecommendation recommendationId approvedBy approvalNotes st))
       = ''Maintenance workflow initiated successfully. 5 automated actions completed.''
   \<and> (\<exists>result st'. executeAutomatedSequence recommendationId approvedBy st = (Inr result, st')
         \<and> sq_actionsCompleted result = 5)
   \<and> (\<exists>v. createTaskAssignments recommendationId e = Inr v)
   \<and> (\<exists>v. sendNotifications assignments e = Inr v)
   \<and> (\<exists>v. createCalendarEvent recommendationId e = Inr v)
   \<and> (\<exists>v. bookResources recommendationId e = Inr v)
   \<and> (\<exists>v. createWorkOrder recommendationId approvedBy e = Inr v)
   \<and> (\<exists>v. createComplianceLogs recommendationId e = Inr v)
   \<and> (\<exists>v. scheduleReminders recommendationId this = Inr v)"
proof -
  define st1 where "st1 = logAuditEntry ''RECOMMENDATION_APPROVED'' approvedBy
                  (''Approved recommendation '' @ recommendationId)
                  [(''recommendationId'', Some recommendationId), (''approvalNotes'', approvalNotes)]
                  True st"
  obtain result st2 where
    run: "executeAutomatedSequence recommendationId approvedBy st1 = (Inr result, st2)"
      "sq_actionsCompleted result = 5"
    using sequence_completes[of recommendationId approvedBy st1] by blast
  have "ar_success (fst (agentic_approveRecommendation recommendationId approvedBy approvalNotes st))
   \<and> ar_message (fst (agentic_approveRecommendation recommendationId approvedBy approvalNotes st))
       = ''Maintenance workflow initiated successfully. 5 automated actions completed.''"
    unfolding agentic_approveRecommendation_def st1_def[symmetric]
    by (simp add: Let_def run show_nat_5)
  with sequence_completes[of recommendationId approvedBy st] steps_return show ?thesis
    by blast
qed

section \<open>Properties of the recommendation generator\<close>

lemma clamp_52_94: "52 \<le> max 52 (min 94 x) \<and> max 52 (min 94 x) \<le> (94::real)"
  by simp

lemma demo_confidence_range:
  "52 \<le> demo_confidence demand window seasonal n utilization risk r
   \<and> demo_confidence demand window seasonal n utilization risk r \<le> 94"
  unfolding demo_confidence_def Let_def by (rule clamp_52_94)

lemma demo_inner_range:
  "\<forall>x \<in> set (fst (demo_inner window input demand seasonal n i e)).
     in_range 52 94 (ai_confidence x)"
proof (induction n arbitrary: i e)
  case 0
  show ?case by simp
next
  case (Suc n)
  show ?case
    using Suc.IH[of "Suc i" "advance 1 2 e"] demo_confidence_range
    by (simp add: Let_def split_beta in_range_def)
qed

lemma demo_outer_range:
  "\<forall>x \<in> set (fst (demo_outer season peak window inputs e)). in_range 52 94 (ai_confidence x)"
proof (induction inputs arbitrary: e)
  case Nil
  show ?case by simp
next
  case (Cons input rest)
  have "\<exists>d s n e1 e2. fst (demo_outer season peak window (input # rest) e)
          = fst (demo_inner window input d s n 0 e1) @ fst (demo_outer season peak window rest e2)"
    by (simp only: demo_outer.simps Let_def split_beta fst_conv) (intro exI, rule refl)
  then obtain d s n e1 e2 where
    "fst (demo_outer season peak window (input # rest) e)
       = fst (demo_inner window input d s n 0 e1) @ fst (demo_outer season peak window rest e2)"
    by blast
  with Cons.IH[of e2] demo_inner_range[of window input d s n 0 e1] show ?case
    by auto
qed

lemma in_range_mono: "in_range 52 94 v \<Longrightarrow> in_range 50 95 v"
  by (cases v) (simp_all add: in_range_def)

lemma demo_confidence_in_range:
  "\<forall>x \<in> set (fst (generateEnhancedDemoRecommendations inputs e)). in_range 50 95 (ai_confidence x)"
proof
  fix x assume "x \<in> set (fst (generateEnhancedDemoRecommendations inputs e))"
  then have "x \<in> set (fst (demo_outer (getCurrentSeason (month_of e (now e 0)))
       (isPeakSeason (month_of e (now e 0)))
       (getMaintenanceWindowOpportunity (month_of e (now e 0))) inputs (advance 1 0 e)))"
    by (auto simp: generateEnhancedDemoRecommendations_def Let_def split_beta dest: in_set_takeD)
  with demo_outer_range show "in_range 50 95 (ai_confidence x)"
    by (blast intro: in_range_mono)
qed

lemma numeric_confidence_clamped:
  "raw_confidence rec \<in> {JUndefined, JNull} \<or> (\<exists>x. raw_confidence rec = JNumber (Num x))
   \<Longrightarrow> in_range 50 95 (ai_confidence (fst (process_one rec e)))"
  by (auto simp: process_one_def any_or_def to_boolean_def to_number_def js_min_def js_max_def
      in_range_def)

text \<open>
  C6: the demo generator's confidences lie in \<open>[52, 94]\<close> (\<open>demo_confidence_in_range\<close>)
  and a model-returned confidence that is a number or absent is clamped into
  \<open>[50, 95]\<close> (\<open>numeric_confidence_clamped\<close>); but a confidence returned as text that
  is not a numeric literal, here \<open>"85%"\<close>, passes \<open>Math.min\<close> and \<open>Math.max\<close> as
  \<open>NaN\<close>, and the generator returns a recommendation whose confidence is not within
  \<open>[50, 95]\<close>.
\<close>

theorem text_confidence_not_clamped:
  "raw_confidence text_confidence_recommendation = JString ''85%''
   \<and> map ai_confidence
        (fst (generateMaintenanceRecommendations (Some ''sk-live'')
                (ReplyParsed (Some [text_confidence_recommendation])) [example_input] example_env))
       = [NaN]
   \<and> \<not> in_range 50 95 NaN"
  by (simp add: generateMaintenanceRecommendations_def processAIRecommendations_def
      process_one_def text_confidence_recommendation_def falsy_def any_or_def to_boolean_def
      to_number_def string_to_number_def is_digit_def js_min_def js_max_def in_range_def
      Let_def)

end
